theory Spec2Isabelle
  imports Complex_Main "HOL-Library.AList" "HOL-Library.Sublist"
begin

section \<open>Python values, dictionaries and strings\<close>

text \<open>
  The agent threads dynamically typed dictionaries through its nodes. A value of the
  Python program is a \<open>pyval\<close>; a dictionary is an association list in insertion
  order (\<open>d.get(k)\<close> is \<open>map_of d k\<close>, \<open>d[k] = v\<close> is \<open>AList.update k v d\<close>).
  A \<open>char\<close> stands for one code point below 256; floats are denoted by the real
  number they hold.
\<close>

datatype pyval =
    PNone
  | PBool bool
  | PInt int
  | PFloat real
  | PStr string
  | PList "pyval list"
  | PDict "(string \<times> pyval) list"

type_synonym dict = "(string \<times> pyval) list"

text \<open>Exceptions the modelled code can raise, carried as values.\<close>

datatype py_error =
    AttributeError string
  | TypeError string
  | KeyError string
  | ValueError string
  | IndexError string
  | Exception string

text \<open>
  \<open>str(e)\<close>: the message of the exception; a \<open>KeyError\<close> prints the \<open>repr\<close> of
  its key, which for a key without quotes or escapes is the key between single quotes.
\<close>

fun str_of_error :: "py_error \<Rightarrow> string" where
  "str_of_error (AttributeError m) = m"
| "str_of_error (TypeError m) = m"
| "str_of_error (KeyError k) = CHR 0x27 # k @ [CHR 0x27]"
| "str_of_error (ValueError m) = m"
| "str_of_error (IndexError m) = m"
| "str_of_error (Exception m) = m"

text \<open>Python truthiness: \<open>bool(v)\<close>.\<close>

fun truthy :: "pyval \<Rightarrow> bool" where
  "truthy PNone = False"
| "truthy (PBool b) = b"
| "truthy (PInt i) = (i \<noteq> 0)"
| "truthy (PFloat r) = (r \<noteq> 0)"
| "truthy (PStr s) = (s \<noteq> [])"
| "truthy (PList xs) = (xs \<noteq> [])"
| "truthy (PDict kvs) = (kvs \<noteq> [])"

text \<open>\<open>d.get(k)\<close> and \<open>d.get(k, default)\<close>.\<close>

definition dget :: "dict \<Rightarrow> string \<Rightarrow> pyval" where
  "dget d k = (case map_of d k of None \<Rightarrow> PNone | Some v \<Rightarrow> v)"

definition dget_default :: "dict \<Rightarrow> string \<Rightarrow> pyval \<Rightarrow> pyval" where
  "dget_default d k dflt = (case map_of d k of None \<Rightarrow> dflt | Some v \<Rightarrow> v)"

text \<open>\<open>a or b\<close> on values and on optional strings (\<open>None\<close> and \<open>""\<close> are falsy).\<close>

definition py_or :: "pyval \<Rightarrow> pyval \<Rightarrow> pyval" where
  "py_or a b = (if truthy a then a else b)"

fun truthy_str :: "string option \<Rightarrow> bool" where
  "truthy_str None = False"
| "truthy_str (Some s) = (s \<noteq> [])"

definition str_or :: "string option \<Rightarrow> string option \<Rightarrow> string option" where
  "str_or a b = (if truthy_str a then a else b)"

fun opt_val :: "string option \<Rightarrow> pyval" where
  "opt_val None = PNone"
| "opt_val (Some s) = PStr s"

subsection \<open>Characters and strings\<close>

text \<open>
  \<open>str.isspace\<close> on the code points below 256: tab, line feed, vertical tab, form
  feed, carriage return, the four separators 28 to 31, space, NEL (133) and the
  no-break space (160). The regular-expression class \<open>\s\<close> is the same set.
\<close>

definition is_space :: "char \<Rightarrow> bool" where
  "is_space c = (let n = (of_char c :: nat) in
     (9 \<le> n \<and> n \<le> 13) \<or> (28 \<le> n \<and> n \<le> 32) \<or> n = 133 \<or> n = 160)"

text \<open>\<open>s.strip()\<close>: drop whitespace at both ends.\<close>

definition lstrip :: "string \<Rightarrow> string" where
  "lstrip s = dropWhile is_space s"

definition rstrip :: "string \<Rightarrow> string" where
  "rstrip s = rev (dropWhile is_space (rev s))"

definition strip :: "string \<Rightarrow> string" where
  "strip s = rstrip (lstrip s)"

text \<open>
  \<open>s.lower()\<close> on the code points below 256: the ASCII capitals and the Latin-1
  capitals 192 to 222 (without the multiplication sign 215) move up by 32.
\<close>

definition lower_char :: "char \<Rightarrow> char" where
  "lower_char c = (let n = (of_char c :: nat) in
     if (65 \<le> n \<and> n \<le> 90) \<or> (192 \<le> n \<and> n \<le> 222 \<and> n \<noteq> 215)
     then char_of (n + 32) else c)"

definition lower :: "string \<Rightarrow> string" where
  "lower s = map lower_char s"

text \<open>\<open>needle in haystack\<close> for strings.\<close>

fun is_substring :: "string \<Rightarrow> string \<Rightarrow> bool" where
  "is_substring needle [] = (needle = [])"
| "is_substring needle (c # cs) = (prefix needle (c # cs) \<or> is_substring needle cs)"

subsection \<open>Raising operations\<close>

definition bind_err :: "py_error + 'a \<Rightarrow> ('a \<Rightarrow> py_error + 'b) \<Rightarrow> py_error + 'b" where
  "bind_err m f = (case m of Inl e \<Rightarrow> Inl e | Inr x \<Rightarrow> f x)"

definition quote :: "string \<Rightarrow> string" where
  "quote s = CHR 0x27 # s @ [CHR 0x27]"

fun type_name :: "pyval \<Rightarrow> string" where
  "type_name PNone = ''NoneType''"
| "type_name (PBool _) = ''bool''"
| "type_name (PInt _) = ''int''"
| "type_name (PFloat _) = ''float''"
| "type_name (PStr _) = ''str''"
| "type_name (PList _) = ''list''"
| "type_name (PDict _) = ''dict''"

text \<open>The error of \<open>v.attr\<close> on a value whose type has no such attribute.\<close>

definition attr_error :: "pyval \<Rightarrow> string \<Rightarrow> py_error" where
  "attr_error v a =
     AttributeError (quote (type_name v) @ '' object has no attribute '' @ quote a)"

text \<open>\<open>len(v)\<close>: strings, lists and dictionaries have a length.\<close>

fun py_len :: "pyval \<Rightarrow> py_error + nat" where
  "py_len (PStr s) = Inr (length s)"
| "py_len (PList xs) = Inr (length xs)"
| "py_len (PDict kvs) = Inr (length kvs)"
| "py_len v = Inl (TypeError (''object of type '' @ quote (type_name v) @ '' has no len()''))"

text \<open>\<open>v.lower()\<close>: only a string has the method.\<close>

fun py_lower :: "pyval \<Rightarrow> py_error + string" where
  "py_lower (PStr s) = Inr (lower s)"
| "py_lower v = Inl (attr_error v ''lower'')"

text \<open>\<open>s.split(sep)\<close> for a one-character separator.\<close>

fun split_on :: "char \<Rightarrow> string \<Rightarrow> string list" where
  "split_on sep [] = [[]]"
| "split_on sep (c # cs) =
     (if c = sep then [] # split_on sep cs
      else (case split_on sep cs of [] \<Rightarrow> [[c]] | w # ws \<Rightarrow> (c # w) # ws))"

text \<open>
  \<open>a == b\<close> on values: booleans, integers and floats compare by their number, lists
  by their elements, dictionaries by their entries whatever the order.
\<close>

fun num_of :: "pyval \<Rightarrow> real option" where
  "num_of (PBool b) = Some (if b then 1 else 0)"
| "num_of (PInt i) = Some (of_int i)"
| "num_of (PFloat r) = Some r"
| "num_of _ = None"

fun py_eq :: "pyval \<Rightarrow> pyval \<Rightarrow> bool" where
  "py_eq PNone b = (b = PNone)"
| "py_eq (PStr s) b = (b = PStr s)"
| "py_eq (PList xs) b = (case b of PList ys \<Rightarrow> list_all2 py_eq xs ys | _ \<Rightarrow> False)"
| "py_eq (PDict kvs) b =
     (case b of
        PDict kws \<Rightarrow>
          length kvs = length kws \<and>
          list_all (\<lambda>(k, v). case map_of kws k of None \<Rightarrow> False | Some w \<Rightarrow> py_eq v w) kvs
      | _ \<Rightarrow> False)"
| "py_eq a b = (case num_of b of None \<Rightarrow> False | Some y \<Rightarrow> num_of a = Some y)"

section \<open>Schema validation (validation.py)\<close>

text \<open>
  The builtins \<open>int(v)\<close>, \<open>float(v)\<close> and \<open>str(v)\<close> of a value that is not a string
  are parameters: the conversions return the number or the exception they raise.
\<close>

record builtins =
  b_int :: "pyval \<Rightarrow> py_error + int"
  b_float :: "pyval \<Rightarrow> py_error + real"
  b_repr :: "pyval \<Rightarrow> string"

definition py_str :: "builtins \<Rightarrow> pyval \<Rightarrow> string" where
  "py_str B v = (case v of PStr s \<Rightarrow> s | _ \<Rightarrow> b_repr B v)"

text \<open>
  A field of a normalized schema, with the keys the code reads. The name is a string
  or absent; the other keys hold any value, and \<open>None\<close> stands for an absent key.
\<close>

record schema_field =
  f_name :: "string option"
  f_required :: "pyval option"
  f_type :: "pyval option"
  f_format :: "pyval option"
  f_description :: "pyval option"

text \<open>\<open>field.get(key)\<close> and \<open>field.get("type", "string")\<close> on the optional keys.\<close>

fun get_opt :: "pyval option \<Rightarrow> pyval" where
  "get_opt None = PNone"
| "get_opt (Some v) = v"

definition get_type :: "schema_field \<Rightarrow> pyval" where
  "get_type field = (case f_type field of None \<Rightarrow> PStr ''string'' | Some t \<Rightarrow> t)"

text \<open>An optional name inside an f-string: \<open>None\<close> prints as its name.\<close>

fun fmt_name :: "string option \<Rightarrow> string" where
  "fmt_name None = ''None''"
| "fmt_name (Some k) = k"

text \<open>
  \<open>EMAIL_REGEX.match(s)\<close> for the pattern \<open>^[^@\s]+@[^@\s]+\.[^@\s]+$\<close>. The first class
  takes the longest run of characters that are neither \<open>@\<close> nor whitespace, and an
  \<open>@\<close> must follow it; the rest must consist of such characters with a dot that is
  neither its first nor its last character. The anchor \<open>$\<close> also matches before a
  line feed that ends the string.
\<close>

definition email_char :: "char \<Rightarrow> bool" where
  "email_char c = (c \<noteq> CHR ''@'' \<and> \<not> is_space c)"

definition email_core :: "string \<Rightarrow> bool" where
  "email_core s =
     (takeWhile email_char s \<noteq> [] \<and>
      (case dropWhile email_char s of
         [] \<Rightarrow> False
       | c # t \<Rightarrow> c = CHR ''@'' \<and> list_all email_char t \<and> CHR ''.'' \<in> set (butlast (tl t))))"

definition EMAIL_REGEX_match :: "string \<Rightarrow> bool" where
  "EMAIL_REGEX_match s =
     (email_core s \<or> (s \<noteq> [] \<and> last s = CHR 0x0A \<and> email_core (butlast s)))"

text \<open>\<open>val is None or (isinstance(val, str) and not val.strip())\<close>.\<close>

definition missing_or_blank :: "pyval \<Rightarrow> bool" where
  "missing_or_blank val = (case val of PNone \<Rightarrow> True | PStr s \<Rightarrow> strip s = [] | _ \<Rightarrow> False)"

text \<open>The body of the \<open>try\<close> block: the coercion by the declared type.\<close>

definition coerce :: "builtins \<Rightarrow> pyval \<Rightarrow> pyval \<Rightarrow> py_error + pyval" where
  "coerce B ftype val =
     (if ftype = PStr ''string'' then Inr (PStr (strip (py_str B val)))
      else if ftype = PStr ''int'' then bind_err (b_int B val) (\<lambda>i. Inr (PInt i))
      else if ftype = PStr ''float'' then bind_err (b_float B val) (\<lambda>r. Inr (PFloat r))
      else Inr val)"

text \<open>
  The loop of \<open>validate_against_schema\<close>, with \<open>validated\<close> and \<open>errors\<close> as
  accumulators. A field without a name reads \<open>data.get(None)\<close>, which is \<open>None\<close> in a
  dictionary keyed by strings, so the assignment \<open>validated[name] = v\<close> is only reached
  with a name.
\<close>

fun validate_fields ::
  "builtins \<Rightarrow> dict \<Rightarrow> schema_field list \<Rightarrow> dict \<Rightarrow> string list \<Rightarrow> dict \<times> string list" where
  "validate_fields B data [] validated errors = (validated, errors)"
| "validate_fields B data (field # rest) validated errors =
     (let name = f_name field;
          required = truthy (get_opt (f_required field));
          ftype = get_type field;
          fmt = get_opt (f_format field);
          val = (case name of None \<Rightarrow> PNone | Some k \<Rightarrow> dget data k)
      in if missing_or_blank val
         then validate_fields B data rest validated
                (if required then errors @ [fmt_name name @ '' is required''] else errors)
         else (case coerce B ftype val of
                 Inl e \<Rightarrow>
                   validate_fields B data rest validated
                     (errors @ [fmt_name name @ '' failed to coerce to '' @ py_str B ftype])
               | Inr v \<Rightarrow>
                   if fmt = PStr ''email'' \<and> \<not> EMAIL_REGEX_match (py_str B v)
                   then validate_fields B data rest validated
                          (errors @ [fmt_name name @ '' must be a valid email''])
                   else validate_fields B data rest
                          (case name of None \<Rightarrow> validated | Some k \<Rightarrow> AList.update k v validated)
                          errors))"

definition validate_against_schema ::
  "builtins \<Rightarrow> dict \<Rightarrow> schema_field list \<Rightarrow> dict \<times> string list" where
  "validate_against_schema B data schema = validate_fields B data schema [] []"

subsection \<open>The validator contract, in the words of the specification\<close>

text \<open>
  What one field contributes: its value is missing or blank; otherwise the coercion
  to its type fails; otherwise the coerced value fails the email format; otherwise the
  coerced value is accepted.
\<close>

definition field_value :: "dict \<Rightarrow> schema_field \<Rightarrow> pyval" where
  "field_value data field = (case f_name field of None \<Rightarrow> PNone | Some k \<Rightarrow> dget data k)"

text \<open>The declared type as a word: \<open>string\<close> when the field declares none.\<close>

definition field_type :: "schema_field \<Rightarrow> string option" where
  "field_type field =
     (case f_type field of None \<Rightarrow> Some ''string'' | Some (PStr t) \<Rightarrow> Some t | Some _ \<Rightarrow> None)"

definition field_required :: "schema_field \<Rightarrow> bool" where
  "field_required field = (case f_required field of None \<Rightarrow> False | Some r \<Rightarrow> truthy r)"

definition field_is_email :: "schema_field \<Rightarrow> bool" where
  "field_is_email field = (f_format field = Some (PStr ''email''))"

text \<open>The coerced value: a trimmed string, an integer, a float, or the value as it is.\<close>

definition spec_coerced :: "builtins \<Rightarrow> dict \<Rightarrow> schema_field \<Rightarrow> pyval option" where
  "spec_coerced B data field =
     (let val = field_value data field in
      if field_type field = Some ''string'' then Some (PStr (strip (py_str B val)))
      else if field_type field = Some ''int''
        then (case b_int B val of Inl _ \<Rightarrow> None | Inr i \<Rightarrow> Some (PInt i))
      else if field_type field = Some ''float''
        then (case b_float B val of Inl _ \<Rightarrow> None | Inr r \<Rightarrow> Some (PFloat r))
      else Some val)"

definition spec_errors :: "builtins \<Rightarrow> dict \<Rightarrow> schema_field \<Rightarrow> string list" where
  "spec_errors B data field =
     (if missing_or_blank (field_value data field)
      then (if field_required field then [fmt_name (f_name field) @ '' is required''] else [])
      else (case spec_coerced B data field of
              None \<Rightarrow> [fmt_name (f_name field) @ '' failed to coerce to '' @ the (field_type field)]
            | Some v \<Rightarrow>
                if field_is_email field \<and> \<not> EMAIL_REGEX_match (py_str B v)
                then [fmt_name (f_name field) @ '' must be a valid email'']
                else []))"

definition spec_entries :: "builtins \<Rightarrow> dict \<Rightarrow> schema_field \<Rightarrow> (string \<times> pyval) list" where
  "spec_entries B data field =
     (if missing_or_blank (field_value data field) then []
      else (case (f_name field, spec_coerced B data field) of
              (Some k, Some v) \<Rightarrow>
                if field_is_email field \<and> \<not> EMAIL_REGEX_match (py_str B v)
                then [] else [(k, v)]
            | _ \<Rightarrow> []))"

section \<open>Configuration and conversation state\<close>

text \<open>
  The three shapes of a per-tool input schema: absent, a list of field descriptors, or
  a JSON-Schema object with its \<open>properties\<close> and its \<open>required\<close> names.
\<close>

datatype input_schema =
    No_schema
  | Field_list "schema_field list"
  | Json_schema "(string \<times> pyval) list" "string list"

text \<open>
  One entry of \<open>config["tools"]\<close>. A field is \<open>None\<close> when the key is absent (or
  null), which is what \<open>tool.get(key)\<close> returns.
\<close>

record tool_entry =
  t_name :: "string option"
  t_enabled :: "pyval option"
  t_type :: "string option"
  t_impl :: "string option"
  t_input_schema :: input_schema
  t_config :: dict

text \<open>The keys of the agent configuration that the modelled functions read.\<close>

record agent_config =
  cfg_tools :: "tool_entry list"
  cfg_tool_type :: "string option"
  cfg_credentials_path :: "string option"

record message =
  role :: string
  content :: string

text \<open>One record of the action history, as \<open>track_action\<close> builds it.\<close>

record action_record =
  ar_step :: nat
  ar_node :: string
  ar_outcome :: string
  ar_timestamp :: nat

text \<open>
  \<open>ConversationState\<close> (models.py). The three string fields read with
  \<open>state.get(...)\<close> and tested for truthiness are optional.
\<close>

record conv_state =
  messages :: "message list"
  user_input :: string
  extracted_data :: dict
  query_spec :: dict
  tool_result :: dict
  next_action :: "string option"
  chosen_tool :: "string option"
  tool_category :: "string option"
  conversation_active :: bool
  decision_justification :: string
  decision_context :: dict
  session_id :: string
  action_history :: "action_record list"
  validation_errors :: "string list"

section \<open>Tool configuration utilities (utilities.py)\<close>

text \<open>
  \<open>normalize_input_schema\<close>: a list is returned as it is; of a JSON-Schema object, every
  property whose specification is a dictionary becomes a field.
\<close>

definition field_of_property :: "string list \<Rightarrow> string \<times> pyval \<Rightarrow> schema_field option" where
  "field_of_property required p =
     (case snd p of
        PDict field_spec \<Rightarrow>
          Some \<lparr>f_name = Some (fst p),
                f_required = Some (PBool (fst p \<in> set required)),
                f_type = Some (dget_default field_spec ''type'' (PStr ''string'')),
                f_format = Some (dget field_spec ''format''),
                f_description = Some (dget_default field_spec ''description'' (PStr []))\<rparr>
      | _ \<Rightarrow> None)"

fun normalize_input_schema :: "input_schema \<Rightarrow> schema_field list" where
  "normalize_input_schema No_schema = []"
| "normalize_input_schema (Field_list field_list) = field_list"
| "normalize_input_schema (Json_schema properties required) =
     (if properties \<noteq> [] then List.map_filter (field_of_property required) properties else [])"

text \<open>\<open>tool.get("enabled", True)\<close> as a condition.\<close>

definition tool_enabled :: "tool_entry \<Rightarrow> bool" where
  "tool_enabled tool = (case t_enabled tool of None \<Rightarrow> True | Some v \<Rightarrow> truthy v)"

text \<open>
  \<open>get_selected_tool_config\<close>: the preferred name is the first truthy one of
  \<open>chosen_tool\<close>, \<open>next_action\<close> and the legacy \<open>tool_type\<close>; the first loop looks for
  an enabled tool of that name, the second loop takes the first enabled tool, and the
  last line returns the preferred name without an entry.
\<close>

definition get_selected_tool_config ::
  "agent_config \<Rightarrow> conv_state \<Rightarrow> string option \<times> tool_entry option" where
  "get_selected_tool_config config state =
     (let preferred = str_or (chosen_tool state) (str_or (next_action state) (cfg_tool_type config));
          tools = cfg_tools config
      in case (if truthy_str preferred
               then find (\<lambda>tool. t_name tool = preferred \<and> tool_enabled tool) tools
               else None) of
           Some tool \<Rightarrow> (preferred, Some tool)
         | None \<Rightarrow>
             (case find tool_enabled tools of
                Some tool \<Rightarrow> (t_name tool, Some tool)
              | None \<Rightarrow> (preferred, None)))"

text \<open>
  What the extraction and validation nodes compute from the selection: the tool type
  \<open>selected_tool or config.get("tool_type", "unknown")\<close> and the normalized schema
  \<open>normalize_input_schema((tool_cfg or {}).get("input_schema"))\<close>.
\<close>

definition selected_tool_type :: "agent_config \<Rightarrow> conv_state \<Rightarrow> string option" where
  "selected_tool_type config state =
     str_or (fst (get_selected_tool_config config state))
       (Some (case cfg_tool_type config of None \<Rightarrow> ''unknown'' | Some t \<Rightarrow> t))"

definition selected_schema :: "agent_config \<Rightarrow> conv_state \<Rightarrow> schema_field list" where
  "selected_schema config state =
     normalize_input_schema
       (case snd (get_selected_tool_config config state) of
          None \<Rightarrow> No_schema
        | Some tool_cfg \<Rightarrow> t_input_schema tool_cfg)"

text \<open>
  \<open>build_runtime_tool_config\<close>. The runtime configuration is a dictionary whose keys
  are strings, or \<open>None\<close> when the generic branch stores the settings under a missing
  tool name. \<open>runtime_config_of\<close> is the body of the function after the selection.
\<close>

definition legacy_field :: "bool \<Rightarrow> schema_field \<Rightarrow> pyval" where
  "legacy_field with_validate f =
     PDict ([(''name'', opt_val (f_name f)),
             (''required'', PBool (truthy (get_opt (f_required f))))] @
            (if with_validate
             then [(''validate'',
                    if get_opt (f_format f) = PStr ''email'' then PStr ''email'' else PNone)]
             else []))"

definition runtime_config_of ::
  "agent_config \<Rightarrow> string option \<Rightarrow> tool_entry option \<Rightarrow> (string option \<times> pyval) list" where
  "runtime_config_of config tool_name tool_cfg =
     (let per_tool_conf = (case tool_cfg of None \<Rightarrow> [] | Some t \<Rightarrow> t_config t);
          impl = (case tool_cfg of None \<Rightarrow> None | Some t \<Rightarrow> t_impl t);
          schema = normalize_input_schema
                     (case tool_cfg of None \<Rightarrow> No_schema | Some t \<Rightarrow> t_input_schema t);
          runtime_cfg =
            (if truthy_str (cfg_credentials_path config)
             then [(Some ''credentials_path'', opt_val (cfg_credentials_path config))]
             else [])
      in if impl = Some ''sheets'' then
           AList.update (Some ''required_fields'') (PList (map (legacy_field True) schema))
             (AList.update (Some ''sheet'')
                (PDict [(''spreadsheet_title'', dget per_tool_conf ''spreadsheet_title''),
                        (''worksheet_name'', dget per_tool_conf ''worksheet_name'')])
                runtime_cfg)
         else if tool_name = Some ''web_search'' then
           AList.update (Some ''web_search'') (PDict per_tool_conf) runtime_cfg
         else if impl = Some ''api_retrieval'' then
           AList.update (Some ''tool_name'') (opt_val tool_name)
             (AList.update (Some ''api_retrieval'') (PDict per_tool_conf) runtime_cfg)
         else
           AList.update (Some ''required_fields'') (PList (map (legacy_field False) schema))
             (AList.update tool_name (PDict per_tool_conf) runtime_cfg))"

definition build_runtime_tool_config ::
  "agent_config \<Rightarrow> conv_state \<Rightarrow> (string option \<times> pyval) list" where
  "build_runtime_tool_config config state =
     (let (tool_name, tool_cfg) = get_selected_tool_config config state
      in runtime_config_of config tool_name tool_cfg)"

text \<open>
  The condition of the claim, in its words: the name \<open>x\<close> names an enabled tool of
  \<open>config.tools\<close>.
\<close>

definition names_enabled_tool :: "agent_config \<Rightarrow> string option \<Rightarrow> bool" where
  "names_enabled_tool config x =
     (x \<noteq> None \<and> list_ex (\<lambda>tool. t_name tool = x \<and> tool_enabled tool) (cfg_tools config))"

section \<open>Tool category and action history (utilities.py)\<close>

text \<open>\<open>get_tool_category\<close>: the type of the first tool of that name, \<open>input\<close> by default.\<close>

definition get_tool_category :: "agent_config \<Rightarrow> string option \<Rightarrow> string" where
  "get_tool_category config tool_name =
     (case find (\<lambda>t. t_name t = tool_name) (cfg_tools config) of
        Some t \<Rightarrow> (if truthy_str (t_type t) then the (t_type t) else ''input'')
      | None \<Rightarrow> ''input'')"

text \<open>Decimal digits of a natural number, and \<open>sep.join(xs)\<close>.\<close>

fun digits_fuel :: "nat \<Rightarrow> nat \<Rightarrow> string" where
  "digits_fuel 0 n = []"
| "digits_fuel (Suc fuel) n =
     (if n < 10 then [char_of (48 + n)]
      else digits_fuel fuel (n div 10) @ [char_of (48 + n mod 10)])"

definition string_of_nat :: "nat \<Rightarrow> string" where
  "string_of_nat n = digits_fuel (Suc n) n"

fun join :: "string \<Rightarrow> string list \<Rightarrow> string" where
  "join sep [] = []"
| "join sep [x] = x"
| "join sep (x # y # ys) = x @ sep @ join sep (y # ys)"

text \<open>
  \<open>summarize_outcome\<close> of utilities.py, the one \<open>track_action\<close> calls. On the typed
  state none of its branches raises, so the \<open>except\<close> clause is never taken.
\<close>

definition summarize_outcome :: "builtins \<Rightarrow> conv_state \<Rightarrow> conv_state \<Rightarrow> string \<Rightarrow> string" where
  "summarize_outcome B old_state new_state node_name =
     (if node_name = ''STRUCTURED_EXTRACTOR'' then
        (let old_data = extracted_data old_state; new_data = extracted_data new_state in
         if new_data \<noteq> [] \<and> length new_data > length old_data
         then ''Extracted '' @ string_of_nat (length new_data) @ '' field(s): '' @
              join '', '' (map fst new_data)
         else ''No new data extracted'')
      else if node_name = ''VALIDATE_INPUTS'' then
        (let errors = validation_errors new_state in
         if errors \<noteq> [] then ''Validation failed: '' @ join '', '' errors
         else ''Validation passed'')
      else if node_name = ''TOOL_EXECUTION'' then
        (let result = tool_result new_state in
         if truthy (dget result ''success'')
         then ''Tool executed successfully: '' @
              py_str B (dget_default result ''message'' (PStr ''Operation completed''))
         else ''Tool execution failed: '' @
              py_str B (dget_default result ''error'' (PStr ''Unknown error'')))
      else if node_name = ''CHAT_NODE'' then
        (let msgs = messages new_state in
         if msgs \<noteq> [] \<and> role (last msgs) = ''assistant''
         then ''Generated response: '' @ take 50 (content (last msgs)) @
              (if length (content (last msgs)) > 50 then ''...'' else [])
         else ''No response generated'')
      else ''Node '' @ node_name @ '' completed'')"

text \<open>
  \<open>track_action\<close> appends one record and keeps the last five. The transition label of
  the record (display text built from the first key of the old state) is left out.
  \<open>log_node_execution\<close> tracks the action and prints; printing is not modelled.
\<close>

definition track_action :: "builtins \<Rightarrow> string \<Rightarrow> conv_state \<Rightarrow> conv_state \<Rightarrow> conv_state" where
  "track_action B node_name old_state new_state =
     (let history = action_history old_state;
          action_record =
            \<lparr>ar_step = length history + 1,
             ar_node = node_name,
             ar_outcome = summarize_outcome B old_state new_state node_name,
             ar_timestamp = length (messages new_state)\<rparr>;
          history' = history @ [action_record]
      in new_state\<lparr>action_history :=
           (if length history' > 5 then drop (length history' - 5) history' else history')\<rparr>)"

definition log_node_execution :: "builtins \<Rightarrow> string \<Rightarrow> conv_state \<Rightarrow> conv_state \<Rightarrow> conv_state" where
  "log_node_execution B node_name old_state new_state = track_action B node_name old_state new_state"

section \<open>Tool registry and executor (tools.py)\<close>

text \<open>The three tool functions the registry refers to.\<close>

datatype tool_fn = Sheets_tool | Web_search_tool | Api_retrieval_tool

definition AVAILABLE_TOOLS :: "(string \<times> tool_fn) list" where
  "AVAILABLE_TOOLS =
     [(''sheets'', Sheets_tool),
      (''web_search'', Web_search_tool),
      (''tavily'', Web_search_tool),
      (''api_retrieval'', Api_retrieval_tool)]"

text \<open>\<open>d[k]\<close>: a missing key raises \<open>KeyError\<close>.\<close>

definition subscript :: "(string \<times> 'a) list \<Rightarrow> string \<Rightarrow> py_error + 'a" where
  "subscript d k = (case map_of d k of None \<Rightarrow> Inl (KeyError k) | Some v \<Rightarrow> Inr v)"

text \<open>
  \<open>execute_tool\<close>. Python evaluates the arguments of
  \<open>AVAILABLE_TOOLS.get(tool_type, AVAILABLE_TOOLS["generic"])\<close> before the call, so the
  subscript runs first, whatever \<open>tool_type\<close> is. The call of the tool function is
  the parameter \<open>run\<close> (the tools reach the network); it returns the envelope or the
  exception that escaped the tool. The \<open>except\<close> clause builds the failure envelope.
\<close>

definition execute_tool ::
  "(tool_fn \<Rightarrow> dict \<Rightarrow> dict \<Rightarrow> bool \<Rightarrow> py_error + dict) \<Rightarrow>
   string \<Rightarrow> dict \<Rightarrow> dict \<Rightarrow> bool \<Rightarrow> dict" where
  "execute_tool run tool_type data config verbose =
     (case (case subscript AVAILABLE_TOOLS ''generic'' of
              Inl e \<Rightarrow> Inl e
            | Inr dflt \<Rightarrow>
                run (case map_of AVAILABLE_TOOLS tool_type of None \<Rightarrow> dflt | Some tool_func \<Rightarrow> tool_func)
                    data config verbose) of
        Inr result \<Rightarrow> result
      | Inl e \<Rightarrow>
          [(''success'', PBool False),
           (''data'', PDict data),
           (''type'', PStr tool_type),
           (''message'', PStr (''Tool execution failed: '' @ str_of_error e)),
           (''error'', PStr (str_of_error e))])"

section \<open>Exit condition utilities (utilities.py)\<close>

text \<open>
  The list comprehension \<open>[m.get("content", "") for m in msgs if m.get("role") == "user"]\<close>:
  a message that is not a dictionary has no \<open>get\<close>.
\<close>

fun user_contents :: "pyval list \<Rightarrow> py_error + pyval list" where
  "user_contents [] = Inr []"
| "user_contents (m # ms) =
     (case m of
        PDict d \<Rightarrow>
          if dget d ''role'' = PStr ''user''
          then bind_err (user_contents ms) (\<lambda>r. Inr (dget_default d ''content'' (PStr []) # r))
          else user_contents ms
      | _ \<Rightarrow> Inl (attr_error m ''get''))"

text \<open>
  \<open>prompt_matches\<close>. \<open>re.search(pattern, text, re.IGNORECASE)\<close> is the parameter
  \<open>re_search\<close>, which returns the truth value of the match or the exception of the
  regular-expression library. The methods \<open>startswith\<close>, \<open>endswith\<close> and \<open>split\<close>
  exist on strings only.
\<close>

definition prompt_matches ::
  "(string \<Rightarrow> string \<Rightarrow> py_error + bool) \<Rightarrow> pyval \<Rightarrow> pyval list \<Rightarrow> py_error + bool" where
  "prompt_matches re_search expr msgs =
     (if \<not> truthy expr \<or> msgs = [] then Inr False
      else bind_err (user_contents msgs) (\<lambda>user_messages.
        if user_messages = [] then Inr False
        else bind_err (py_lower (last user_messages)) (\<lambda>last_user_message.
          case expr of
            PStr e \<Rightarrow>
              if prefix ''/'' e \<and> suffix ''/'' e
              then (case re_search (butlast (tl e)) last_user_message of
                      Inl _ \<Rightarrow> Inr False
                    | Inr found \<Rightarrow> Inr found)
              else Inr (list_ex (\<lambda>phrase. is_substring phrase last_user_message)
                          (map (\<lambda>p. lower (strip p)) (split_on CHR ''|'' e)))
          | _ \<Rightarrow> Inl (attr_error expr ''startswith''))))"

text \<open>\<open>logical_matches\<close>: only the named predicate \<open>is_data_complete\<close>.\<close>

definition logical_matches :: "pyval \<Rightarrow> dict \<Rightarrow> py_error + bool" where
  "logical_matches expr st =
     (if \<not> truthy expr then Inr False
      else if py_eq expr (PStr ''is_data_complete'')
      then bind_err (py_len (dget_default st ''extracted_data'' (PDict []))) (\<lambda>n. Inr (n > 0))
      else Inr False)"

text \<open>
  \<open>tool_event_matches\<close>. \<open>tool_result.get\<close> is reached only when the expected value
  is truthy (\<open>and\<close> evaluates its left operand first), and raises on a truthy tool
  result that is not a dictionary.
\<close>

definition tool_event_matches :: "pyval \<Rightarrow> dict \<Rightarrow> py_error + bool" where
  "tool_event_matches expr st =
     (case expr of
        PDict e \<Rightarrow>
          if e = [] then Inr False
          else
            let tool_result = dget_default st ''tool_result'' (PDict []) in
            if \<not> truthy tool_result then Inr False
            else
              let expected_tool = dget e ''tool'';
                  expected_status = dget e ''status''
              in bind_err
                   (if truthy expected_tool
                    then (case tool_result of
                            PDict r \<Rightarrow> Inr (\<not> py_eq (dget r ''type'') expected_tool)
                          | _ \<Rightarrow> Inl (attr_error tool_result ''get''))
                    else Inr False)
                   (\<lambda>tool_differs.
                      if tool_differs then Inr False
                      else bind_err
                        (if truthy expected_status
                         then (case tool_result of
                                 PDict r \<Rightarrow>
                                   Inr (\<not> py_eq (dget r ''success'')
                                           (PBool (py_eq expected_status (PStr ''success''))))
                               | _ \<Rightarrow> Inl (attr_error tool_result ''get''))
                         else Inr False)
                        (\<lambda>status_differs. Inr (\<not> status_differs)))
      | _ \<Rightarrow> Inr False)"

text \<open>
  \<open>max_turns_matches\<close>. \<open>int(expr)\<close> is the parameter \<open>py_int\<close>; the \<open>except\<close> clause
  catches \<open>ValueError\<close> and \<open>TypeError\<close> only. A boolean is an instance of \<open>int\<close>.
\<close>

definition max_turns_matches ::
  "(pyval \<Rightarrow> py_error + int) \<Rightarrow> pyval \<Rightarrow> pyval list \<Rightarrow> py_error + bool" where
  "max_turns_matches py_int expr msgs =
     (case expr of
        PFloat _ \<Rightarrow> Inr False
      | PNone \<Rightarrow> Inr False
      | PList _ \<Rightarrow> Inr False
      | PDict _ \<Rightarrow> Inr False
      | _ \<Rightarrow>
          (case py_int expr of
             Inr max_turns \<Rightarrow> Inr (int (length msgs) \<ge> max_turns)
           | Inl (ValueError _) \<Rightarrow> Inr False
           | Inl (TypeError _) \<Rightarrow> Inr False
           | Inl e \<Rightarrow> Inl e))"

text \<open>\<open>evaluate\<close>: dispatch on the type of the condition descriptor.\<close>

definition evaluate ::
  "(string \<Rightarrow> string \<Rightarrow> py_error + bool) \<Rightarrow> (pyval \<Rightarrow> py_error + int) \<Rightarrow>
   dict \<Rightarrow> dict \<Rightarrow> pyval list \<Rightarrow> py_error + bool" where
  "evaluate re_search py_int cond state msgs =
     (if cond = [] \<or> map_of cond ''type'' = None then Inr False
      else
        let cond_type = dget cond ''type'';
            expr = dget cond ''expression''
        in if cond_type = PStr ''prompt'' then prompt_matches re_search expr msgs
           else if cond_type = PStr ''logical'' then logical_matches expr state
           else if cond_type = PStr ''tool_event'' then tool_event_matches expr state
           else if cond_type = PStr ''max_turns'' then max_turns_matches py_int expr msgs
           else Inr False)"

section \<open>Parsing the decision (nodes.py)\<close>

text \<open>
  \<open>re.search(r"DECISION:\s*([\w\-_]+)\s*-\s*(.*)", text, re.IGNORECASE)\<close>, written out.
  The class \<open>\w\<close> on the code points below 256 holds the digits, the letters, the
  underscore, and the Latin-1 letters and numerals; the token class adds the hyphen.
\<close>

definition is_word :: "char \<Rightarrow> bool" where
  "is_word c = (let n = (of_char c :: nat) in
     (48 \<le> n \<and> n \<le> 57) \<or> (65 \<le> n \<and> n \<le> 90) \<or> n = 95 \<or> (97 \<le> n \<and> n \<le> 122) \<or>
     n = 170 \<or> n = 178 \<or> n = 179 \<or> n = 181 \<or> n = 185 \<or> n = 186 \<or>
     (188 \<le> n \<and> n \<le> 190) \<or> (192 \<le> n \<and> n \<le> 214) \<or> (216 \<le> n \<and> n \<le> 246) \<or>
     (248 \<le> n \<and> n \<le> 255))"

definition token_char :: "char \<Rightarrow> bool" where
  "token_char c = (is_word c \<or> c = CHR ''-'')"

text \<open>The second group \<open>\s*(.*)\<close>: skip whitespace, then take the characters up to a line feed.\<close>

definition reason_group :: "string \<Rightarrow> string" where
  "reason_group s = takeWhile (\<lambda>c. c \<noteq> CHR 0x0A) (dropWhile is_space s)"

text \<open>
  Backtracking of the greedy token: the token gives characters back until the one
  after it is a hyphen, so it ends before the last hyphen of the run, and must keep at
  least one character.
\<close>

definition split_last_dash :: "string \<Rightarrow> (string \<times> string) option" where
  "split_last_dash run =
     (if CHR ''-'' \<in> set run
      then Some (rev (tl (dropWhile (\<lambda>c. c \<noteq> CHR ''-'') (rev run))),
                 rev (takeWhile (\<lambda>c. c \<noteq> CHR ''-'') (rev run)))
      else None)"

text \<open>
  A match that starts at the head of \<open>s\<close>: the literal without regard to case,
  whitespace, the longest run of token characters; then either whitespace and a hyphen
  follow the whole run, or the run is split at its last hyphen.
\<close>

definition decision_match_at :: "string \<Rightarrow> (string \<times> string) option" where
  "decision_match_at s =
     (if lower (take 9 s) \<noteq> ''decision:'' then None
      else
        let rest = dropWhile is_space (drop 9 s);
            run = takeWhile token_char rest;
            after = dropWhile token_char rest;
            backtrack =
              (case split_last_dash run of
                 None \<Rightarrow> None
               | Some (tok, remainder) \<Rightarrow>
                   if tok = [] then None else Some (tok, reason_group (remainder @ after)))
        in if run = [] then None
           else (case dropWhile is_space after of
                   [] \<Rightarrow> backtrack
                 | c # cs \<Rightarrow> if c = CHR ''-'' then Some (run, reason_group cs) else backtrack))"

text \<open>\<open>re.search\<close>: the match at the leftmost position that has one.\<close>

fun decision_search :: "string \<Rightarrow> (string \<times> string) option" where
  "decision_search [] = None"
| "decision_search (c # cs) =
     (case decision_match_at (c # cs) of
        Some groups \<Rightarrow> Some groups
      | None \<Rightarrow> decision_search cs)"

text \<open>Lines 683 to 691: the decision and its justification, \<open>chat\<close> when nothing matches.\<close>

definition parse_decision :: "string \<Rightarrow> string \<times> string" where
  "parse_decision llm_response =
     (case decision_search llm_response of
        Some (token, reason) \<Rightarrow> (strip token, strip reason)
      | None \<Rightarrow> (''chat'', strip llm_response))"

section \<open>The nodes of the conversation graph (nodes.py, graph_builder.py)\<close>

text \<open>
  The collaborators outside the repository: the builtins, the JSON-mode completion
  service made by \<open>create_json_mode_llm\<close>, \<open>json.loads\<close>, and the prompt builders. A
  completion returns its text or raises. The conversation model \<open>llm\<close> is an argument
  of every node, as in the source; the flag \<open>verbose\<close> only switches printing and is
  left out.
\<close>

record world =
  w_builtins :: builtins
  w_json_llm :: "string \<Rightarrow> py_error + string"
  w_json_loads :: "string \<Rightarrow> py_error + pyval"
  w_decision_prompt :: "agent_config \<Rightarrow> conv_state \<Rightarrow> string"
  w_chat_prompt :: "agent_config \<Rightarrow> conv_state \<Rightarrow> string"
  w_extraction_prompt :: "agent_config \<Rightarrow> conv_state \<Rightarrow> string"

text \<open>The completion calls a node issues, in order.\<close>

datatype llm_call = Json_mode_call string | Conversation_call string

subsection \<open>Decision router\<close>

text \<open>\<open>get_tool_requirements\<close> and \<open>get_alternative_actions\<close>, for the decision context.\<close>

fun tool_requirements_loop :: "tool_entry list \<Rightarrow> string option \<Rightarrow> pyval list" where
  "tool_requirements_loop [] tool_name = []"
| "tool_requirements_loop (tool # rest) tool_name =
     (if t_name tool = tool_name
      then (case t_input_schema tool of
              Json_schema properties required \<Rightarrow>
                if properties \<noteq> [] then map PStr required
                else tool_requirements_loop rest tool_name
            | Field_list schema \<Rightarrow>
                map (\<lambda>f. opt_val (f_name f)) (filter (\<lambda>f. truthy (get_opt (f_required f))) schema)
            | No_schema \<Rightarrow> tool_requirements_loop rest tool_name)
      else tool_requirements_loop rest tool_name)"

definition get_tool_requirements :: "agent_config \<Rightarrow> string option \<Rightarrow> pyval list" where
  "get_tool_requirements config tool_name =
     (if \<not> truthy_str tool_name then [] else tool_requirements_loop (cfg_tools config) tool_name)"

definition get_alternative_actions :: "agent_config \<Rightarrow> string list" where
  "get_alternative_actions config =
     filter (\<lambda>alt. alt \<noteq> [])
       ([''chat'', ''end''] @
        map (\<lambda>tool. case t_name tool of None \<Rightarrow> [] | Some n \<Rightarrow> n)
          (filter tool_enabled (cfg_tools config)))"

text \<open>
  The normalisation loop: the first tool with a non-empty name that equals the decision
  without regard to case.
\<close>

definition match_tool :: "agent_config \<Rightarrow> string \<Rightarrow> tool_entry option" where
  "match_tool config decision =
     find (\<lambda>t. case t_name t of None \<Rightarrow> False
                | Some name \<Rightarrow> name \<noteq> [] \<and> lower name = lower decision)
       (cfg_tools config)"

text \<open>
  The loop guard (lines 703 to 715): among the last three entries of the history, the
  outcomes of the decision-router entries; the decision is deferred to chat when there
  are at least two of them and every one contains the name of the chosen tool.
\<close>

definition recent_actions :: "action_record list \<Rightarrow> action_record list" where
  "recent_actions history =
     (if length history \<ge> 3 then drop (length history - 3) history else history)"

definition repeated_tool :: "action_record list \<Rightarrow> string option \<Rightarrow> bool" where
  "repeated_tool history chosen =
     (case chosen of
        None \<Rightarrow> False
      | Some tool_name \<Rightarrow>
          tool_name \<noteq> [] \<and> recent_actions history \<noteq> [] \<and>
          (let decisions = map ar_outcome
                 (filter (\<lambda>a. ar_node a = ''DECISION_ROUTER'') (recent_actions history))
           in length decisions \<ge> 2 \<and> list_all (is_substring tool_name) decisions))"

definition decision_router_node ::
  "world \<Rightarrow> conv_state \<Rightarrow> agent_config \<Rightarrow> (string \<Rightarrow> py_error + string) \<Rightarrow> py_error + conv_state" where
  "decision_router_node W state config llm =
     bind_err (llm (w_decision_prompt W config state)) (\<lambda>llm_response.
       let (decision, justification) = parse_decision llm_response;
           matched = match_tool config decision;
           chosen = (case matched of None \<Rightarrow> None | Some t \<Rightarrow> t_name t);
           category = (case matched of None \<Rightarrow> None | Some t \<Rightarrow> t_type t);
           repeated = repeated_tool (action_history state) chosen;
           chosen' = (if repeated then None else chosen);
           category' = (if repeated then None else category);
           decision' = (if repeated then ''chat'' else decision);
           context =
             [(''user_intent'', PStr (user_input state)),
              (''available_data'', PDict (extracted_data state)),
              (''tool_requirements'',
                 PList (if truthy_str chosen' then get_tool_requirements config chosen'
                        else [])),
              (''reasoning'', PStr justification),
              (''alternatives_considered'', PList (map PStr (get_alternative_actions config)))];
           new_state = state
             \<lparr>next_action := str_or chosen' (Some decision'),
              decision_justification := justification,
              chosen_tool := str_or chosen' (chosen_tool state),
              tool_category := str_or category' (tool_category state),
              decision_context := context\<rparr>
       in Inr (log_node_execution (w_builtins W) ''DECISION_ROUTER'' state new_state))"

subsection \<open>Structured extraction and validation nodes\<close>

text \<open>\<open>are_required_fields_complete\<close> of nodes.py, which shadows the one of utilities.py.\<close>

fun are_required_fields_complete :: "dict \<Rightarrow> schema_field list \<Rightarrow> bool" where
  "are_required_fields_complete data [] = True"
| "are_required_fields_complete data (f # rest) =
     (if truthy (get_opt (f_required f))
      then (case f_name f of
              None \<Rightarrow> are_required_fields_complete data rest
            | Some name \<Rightarrow>
                if name = [] then are_required_fields_complete data rest
                else if missing_or_blank (dget data name) then False
                else are_required_fields_complete data rest)
      else are_required_fields_complete data rest)"

text \<open>
  The merge loop of the extractor:
  \<open>if k not in merged or not merged.get(k): merged[k] = v\<close>.
\<close>

fun merge_extracted :: "dict \<Rightarrow> dict \<Rightarrow> dict" where
  "merge_extracted merged [] = merged"
| "merge_extracted merged ((k, v) # rest) =
     merge_extracted
       (if map_of merged k = None \<or> \<not> truthy (dget merged k)
        then AList.update k v merged else merged)
       rest"

text \<open>\<open>merged.update(validated)\<close>: every entry of \<open>validated\<close> is written.\<close>

definition dict_update :: "dict \<Rightarrow> dict \<Rightarrow> dict" where
  "dict_update merged validated = fold (\<lambda>(k, v). AList.update k v) validated merged"

text \<open>
  The \<open>try\<close> block of the extractor: the JSON-mode completion, \<open>json.loads\<close>, and the
  trimming of the string values of the parsed object. Any exception (also that of
  \<open>.items()\<close> on a parsed value that is not an object) leaves the empty dictionary.
\<close>

definition strip_values :: "dict \<Rightarrow> dict" where
  "strip_values kvs = map (\<lambda>(k, v). (k, case v of PStr t \<Rightarrow> PStr (strip t) | _ \<Rightarrow> v)) kvs"

definition extract_json :: "world \<Rightarrow> string \<Rightarrow> dict" where
  "extract_json W prompt =
     (case bind_err (w_json_llm W prompt) (w_json_loads W) of
        Inr (PDict kvs) \<Rightarrow> strip_values kvs
      | _ \<Rightarrow> [])"

text \<open>
  The prompt specification: the named fields of the schema, or one default field. Only
  the default fields carry a \<open>prompt\<close> key.
\<close>

definition tool_input_spec :: "schema_field list \<Rightarrow> string \<Rightarrow> dict list" where
  "tool_input_spec schema category =
     (if schema \<noteq> []
      then map (\<lambda>f. [(''name'', opt_val (f_name f)),
                      (''description'', py_or (get_opt (f_description f)) (PStr []))])
             (filter (\<lambda>f. truthy_str (f_name f)) schema)
      else if category = ''retrieval''
      then [[(''name'', PStr ''query''), (''prompt'', PStr ''What should I search for?'')]]
      else [[(''name'', PStr ''tool_input''),
             (''prompt'', PStr ''Please provide the input for this operation.'')]])"

text \<open>
  \<open>structured_extractor_node\<close> returns the new state, or the \<open>IndexError\<close> of
  \<open>tool_input_spec[0]\<close> on an empty specification, together with the completion calls
  it issued. The conversation model \<open>llm\<close> is an argument and is never called.
\<close>

definition structured_extractor_node ::
  "world \<Rightarrow> conv_state \<Rightarrow> agent_config \<Rightarrow> (string \<Rightarrow> py_error + string) \<Rightarrow>
   (py_error + conv_state) \<times> llm_call list" where
  "structured_extractor_node W state config llm =
     (let tool_type = selected_tool_type config state;
          category = get_tool_category config tool_type;
          schema = selected_schema config state
      in if schema \<noteq> [] \<and> are_required_fields_complete (extracted_data state) schema
         then (Inr (log_node_execution (w_builtins W) ''STRUCTURED_EXTRACTOR'' state
                 (state\<lparr>next_action := Some ''validate_inputs'', chosen_tool := tool_type,
                        tool_category := Some category\<rparr>)), [])
         else
           let spec = tool_input_spec schema category;
               prompt = w_extraction_prompt W config state;
               extracted = extract_json W prompt;
               merged = merge_extracted (extracted_data state) extracted
           in if extracted = [] \<and> messages state = []
              then
                (bind_err
                   (if category = ''retrieval''
                    then Inr ''What would you like me to search for?''
                    else (case spec of
                            [] \<Rightarrow> Inl (IndexError ''list index out of range'')
                          | first # _ \<Rightarrow>
                              Inr (case map_of first ''prompt'' of
                                     Some (PStr p) \<Rightarrow> p
                                   | _ \<Rightarrow> ''Could you share the necessary details?'')))
                   (\<lambda>question.
                      Inr (log_node_execution (w_builtins W) ''STRUCTURED_EXTRACTOR'' state
                        (state\<lparr>messages := messages state @
                                  [\<lparr>role = ''assistant'', content = question\<rparr>],
                               next_action := Some ''chat''\<rparr>))),
                 [Json_mode_call prompt])
              else
                (Inr (log_node_execution (w_builtins W) ''STRUCTURED_EXTRACTOR'' state
                   (state\<lparr>extracted_data := merged, next_action := Some ''validate_inputs'',
                          chosen_tool := tool_type, tool_category := Some category\<rparr>)),
                 [Json_mode_call prompt]))"

text \<open>\<open>validate_inputs_node\<close>: errors route to chat, else the validated values are written.\<close>

definition validate_inputs_node :: "world \<Rightarrow> conv_state \<Rightarrow> agent_config \<Rightarrow> conv_state" where
  "validate_inputs_node W state config =
     (let tool_type = selected_tool_type config state;
          schema = selected_schema config state;
          (validated, val_errors) =
            validate_against_schema (w_builtins W) (extracted_data state) schema
      in if val_errors \<noteq> []
         then log_node_execution (w_builtins W) ''VALIDATE_INPUTS'' state
                (state\<lparr>messages := messages state @
                          [\<lparr>role = ''assistant'',
                            content = ''I need a bit more information or corrections: '' @
                                      join ''; '' val_errors\<rparr>],
                       validation_errors := val_errors,
                       next_action := Some ''chat''\<rparr>)
         else log_node_execution (w_builtins W) ''VALIDATE_INPUTS'' state
                (state\<lparr>extracted_data := dict_update (extracted_data state) validated,
                       validation_errors := [],
                       next_action := Some ''tool_execution'',
                       chosen_tool := tool_type\<rparr>))"

subsection \<open>Chat node, end node and the routers of the graph\<close>



text \<open>The conditional edges of \<open>create_conversation_graph\<close>.\<close>

definition tool_names :: "agent_config \<Rightarrow> string list" where
  "tool_names config =
     map (\<lambda>t. the (t_name t))
       (filter (\<lambda>t. truthy_str (t_name t) \<and> tool_enabled t) (cfg_tools config))"

definition decision_router_fn :: "agent_config \<Rightarrow> conv_state \<Rightarrow> string" where
  "decision_router_fn config state =
     (let decision = (case next_action state of None \<Rightarrow> ''chat'' | Some a \<Rightarrow> a) in
      if decision \<in> set (tool_names config) then ''structured_extractor''
      else if decision = ''end'' then ''end''
      else ''chat'')"


section \<open>Reading results and example inputs\<close>

text \<open>A field of the state a node returns, when it returns one.\<close>

definition result_field :: "(conv_state \<Rightarrow> 'a) \<Rightarrow> py_error + conv_state \<Rightarrow> 'a option" where
  "result_field f r = (case r of Inl e \<Rightarrow> None | Inr s \<Rightarrow> Some (f s))"

text \<open>A completion service that answers every prompt with the same text.\<close>

definition llm_returning :: "string \<Rightarrow> string \<Rightarrow> py_error + string" where
  "llm_returning text prompt = Inr text"

text \<open>Builtins for the examples: \<open>int\<close> and \<open>float\<close> accept numbers only.\<close>

definition example_builtins :: builtins where
  "example_builtins =
     \<lparr>b_int = (\<lambda>v. case v of PInt i \<Rightarrow> Inr i
                     | _ \<Rightarrow> Inl (ValueError ''invalid literal for int()'')),
      b_float = (\<lambda>v. case v of PFloat r \<Rightarrow> Inr r | PInt i \<Rightarrow> Inr (of_int i)
                     | _ \<Rightarrow> Inl (ValueError ''could not convert string to float'')),
      b_repr = (\<lambda>v. ''<value>'')\<rparr>"

definition example_world :: world where
  "example_world =
     \<lparr>w_builtins = example_builtins,
      w_json_llm = (\<lambda>prompt. Inr ''not json''),
      w_json_loads = (\<lambda>text. Inl (ValueError ''Expecting value'')),
      w_decision_prompt = (\<lambda>config state. ''decide''),
      w_chat_prompt = (\<lambda>config state. ''reply''),
      w_extraction_prompt = (\<lambda>config state. ''extract'')\<rparr>"

definition example_tools :: "tool_entry list" where
  "example_tools =
     [\<lparr>t_name = Some ''web_search'', t_enabled = Some (PBool False), t_type = Some ''retrieval'',
       t_impl = None, t_input_schema = No_schema, t_config = []\<rparr>,
      \<lparr>t_name = Some ''sheets'', t_enabled = None, t_type = Some ''input'',
       t_impl = Some ''sheets'',
       t_input_schema = Field_list
         [\<lparr>f_name = Some ''email'', f_required = Some (PBool True), f_type = None,
           f_format = Some (PStr ''email''), f_description = None\<rparr>],
       t_config = []\<rparr>]"

definition example_config :: agent_config where
  "example_config =
     \<lparr>cfg_tools = example_tools, cfg_tool_type = None, cfg_credentials_path = None\<rparr>"

definition example_state :: conv_state where
  "example_state =
     \<lparr>messages = [\<lparr>role = ''user'', content = ''find it''\<rparr>],
      user_input = ''find it'', extracted_data = [], query_spec = [],
      tool_result = [], next_action = Some ''chat'', chosen_tool = Some ''web_search'',
      tool_category = None, conversation_active = True, decision_justification = [],
      decision_context = [], session_id = ''s1'', action_history = [],
      validation_errors = []\<rparr>"

text \<open>A parser for the examples: every completion parses to the same object.\<close>

definition example_json_loads :: "string \<Rightarrow> py_error + pyval" where
  "example_json_loads response_text =
     Inr (PDict [(''name'', PStr '' Bob ''), (''email'', PStr ''bob@example.org'')])"

section \<open>Question generation of the news workflow (llamaindex_agent.py)\<close>









section \<open>The generic HTTP retrieval tool (tools.py)\<close>

text \<open>
  The settings under \<open>config["api_retrieval"]\<close>, with the types the tool expects. The
  method is held as \<open>str(api_cfg.get("method", "GET")).upper()\<close> gives it.
\<close>

record api_settings =
  api_base_url :: "string option"
  api_method :: string
  api_timeout :: int
  api_headers :: dict
  api_query_param_key :: "string option"
  api_param_map :: "(string \<times> string) list"
  api_auth_type :: "string option"
  api_auth_env_key :: "string option"
  api_auth_name :: "string option"

record http_request =
  rq_method :: string
  rq_url :: string
  rq_params :: dict
  rq_body :: pyval
  rq_headers :: dict
  rq_timeout :: int

text \<open>A response: its status, its text, and its JSON payload when \<open>resp.json()\<close> parses.\<close>

record http_response =
  rs_status_code :: nat
  rs_text :: string
  rs_json :: "pyval option"

text \<open>
  Outside the repository: whether \<open>requests\<close> can be imported, the environment
  variables, and the HTTP exchange, which returns a response or raises.
\<close>

record tool_world =
  tw_requests_available :: bool
  tw_environ :: "string \<Rightarrow> string option"
  tw_http :: "http_request \<Rightarrow> py_error + http_response"

text \<open>The loop over \<open>param_map\<close>: a field that is present and neither \<open>None\<close> nor empty.\<close>

fun map_params :: "dict \<Rightarrow> (string \<times> string) list \<Rightarrow> dict \<Rightarrow> dict" where
  "map_params data [] params = params"
| "map_params data ((in_key, api_key) # rest) params =
     map_params data rest
       (case map_of data in_key of
          None \<Rightarrow> params
        | Some v \<Rightarrow> if v = PNone \<or> v = PStr [] then params else AList.update api_key v params)"

text \<open>The headers as the envelope shows them: authorization headers are masked.\<close>

definition mask_headers :: "dict \<Rightarrow> dict" where
  "mask_headers headers =
     map (\<lambda>(k, v). (k, if prefix ''authorization'' (lower k) then PStr ''***'' else v)) headers"

definition api_retrieval_tool :: "builtins \<Rightarrow> tool_world \<Rightarrow> dict \<Rightarrow> api_settings \<Rightarrow> dict" where
  "api_retrieval_tool B world data api_cfg =
     (if \<not> tw_requests_available world then
        [(''success'', PBool False),
         (''data'', PDict data),
         (''type'', PStr ''api_retrieval''),
         (''message'', PStr ''Requests library not available. Install: pip install requests''),
         (''error'', PStr ''Missing dependency: requests'')]
      else if \<not> truthy_str (api_base_url api_cfg) then
        [(''success'', PBool False),
         (''data'', PDict data),
         (''type'', PStr ''api_retrieval''),
         (''message'', PStr ''Missing required config: base_url''),
         (''error'', PStr ''Invalid configuration'')]
      else
        let url = the (api_base_url api_cfg);
            method = api_method api_cfg;
            qkey = api_query_param_key api_cfg;
            query_value = py_or (dget data ''query'') (dget data ''search_query'');
            params0 = (if truthy_str qkey \<and> truthy query_value
                       then [(the qkey, query_value)] else []);
            params1 = map_params data (api_param_map api_cfg) params0;
            auth_type = lower (case api_auth_type api_cfg of None \<Rightarrow> [] | Some t \<Rightarrow> t);
            name = api_auth_name api_cfg;
            token = (if truthy_str (api_auth_env_key api_cfg)
                     then tw_environ world (the (api_auth_env_key api_cfg)) else None);
            inject = truthy_str token \<and> truthy_str name;
            headers = (if inject \<and> auth_type = ''header''
                       then AList.update (the name) (PStr (the token)) (api_headers api_cfg)
                       else api_headers api_cfg);
            params2 = (if inject \<and> auth_type \<noteq> ''header'' \<and> auth_type = ''query''
                       then AList.update (the name) (PStr (the token)) params1
                       else params1);
            body = (if method = ''GET'' then PNone
                    else if \<not> truthy_str qkey then PDict params2
                    else PDict ((the qkey, query_value) #
                                filter (\<lambda>(k, v). k \<noteq> the qkey) params2));
            params = (if method = ''GET'' then params2 else [])
        in case tw_http world
                  \<lparr>rq_method = method, rq_url = url, rq_params = params, rq_body = body,
                   rq_headers = headers, rq_timeout = api_timeout api_cfg\<rparr> of
             Inr resp \<Rightarrow>
               let status = rs_status_code resp;
                   ok = (200 \<le> status \<and> status < 300);
                   summary = ''API '' @ method @ '' '' @ string_of_nat status @ '' for '' @ url @
                     (if truthy query_value
                      then '' | query='' @ quote (take 50 (py_str B query_value)) else [])
               in [(''success'', PBool ok),
                   (''type'', PStr ''api_retrieval''),
                   (''message'', PStr summary),
                   (''summary'', PStr summary),
                   (''request'',
                      PDict [(''url'', PStr url), (''method'', PStr method),
                             (''params'', PDict params), (''body'', body),
                             (''headers'', PDict (mask_headers headers))]),
                   (''status_code'', PInt (int status)),
                   (''json'', get_opt (rs_json resp)),
                   (''text'', PStr (rs_text resp)),
                   (''data'', PDict [(''query'', query_value)])]
           | Inl e \<Rightarrow>
               [(''success'', PBool False),
                (''type'', PStr ''api_retrieval''),
                (''message'', PStr (''API request failed: '' @ str_of_error e)),
                (''error'', PStr (str_of_error e)),
                (''request'',
                   PDict [(''url'', PStr url), (''method'', PStr method),
                          (''params'', PDict params), (''body'', body),
                          (''headers'', PDict headers)]),
                (''data'', PDict [(''query'', query_value)])])"

text \<open>The invariant of the result envelope: a failure carries a non-empty error.\<close>

definition error_populated :: "dict \<Rightarrow> bool" where
  "error_populated envelope =
     (case map_of envelope ''error'' of Some (PStr msg) \<Rightarrow> msg \<noteq> [] | _ \<Rightarrow> False)"

text \<open>A server for the examples that answers every request with 404.\<close>

definition example_tool_world :: tool_world where
  "example_tool_world =
     \<lparr>tw_requests_available = True,
      tw_environ = (\<lambda>key. None),
      tw_http = (\<lambda>request.
        Inr \<lparr>rs_status_code = 404, rs_text = ''Not Found'', rs_json = None\<rparr>)\<rparr>"

definition example_api_settings :: api_settings where
  "example_api_settings =
     \<lparr>api_base_url = Some ''https://api.example.org/items'', api_method = ''GET'',
      api_timeout = 15, api_headers = [], api_query_param_key = Some ''q'',
      api_param_map = [], api_auth_type = None, api_auth_env_key = None,
      api_auth_name = None\<rparr>"

section \<open>The decision router, in the words of the specification\<close>

text \<open>
  Tool resolution: a decision that equals a configured tool name without regard to
  case becomes that name, unless the loop guard defers it to chat; any other decision
  is used as it is.
\<close>

definition resolved_action :: "agent_config \<Rightarrow> action_record list \<Rightarrow> string \<Rightarrow> string" where
  "resolved_action config history decision =
     (case match_tool config decision of
        None \<Rightarrow> decision
      | Some t \<Rightarrow> if repeated_tool history (t_name t) then ''chat'' else the (t_name t))"




section \<open>Properties\<close>

subsection \<open>Resolution of the active tool\<close>

lemma find_none_if_not_ex:
  "\<not> list_ex P xs \<Longrightarrow> find P xs = None"
  by (induction xs) auto

text \<open>
  Claim C10. When neither \<open>chosen_tool\<close>, nor \<open>next_action\<close>, nor the legacy
  \<open>tool_type\<close> names an enabled tool of \<open>config.tools\<close>, and the list has an enabled
  tool, \<open>get_selected_tool_config\<close> returns the first enabled tool: its name and its
  entry. The schema that the extraction and validation nodes work against is then the
  input schema of that tool, and the runtime configuration is the one built for that
  tool; no unknown-tool condition is reported.
\<close>

theorem get_selected_tool_config_first_enabled:
  assumes "\<not> names_enabled_tool config (chosen_tool state)"
    and "\<not> names_enabled_tool config (next_action state)"
    and "\<not> names_enabled_tool config (cfg_tool_type config)"
    and "find tool_enabled (cfg_tools config) = Some tool"
  shows "get_selected_tool_config config state = (t_name tool, Some tool) \<and>
         selected_schema config state = normalize_input_schema (t_input_schema tool) \<and>
         build_runtime_tool_config config state =
           runtime_config_of config (t_name tool) (Some tool)"
proof -
  define preferred where
    "preferred = str_or (chosen_tool state) (str_or (next_action state) (cfg_tool_type config))"
  have "preferred = chosen_tool state \<or> preferred = next_action state
        \<or> preferred = cfg_tool_type config"
    by (simp add: preferred_def str_or_def)
  with assms(1-3) have "\<not> names_enabled_tool config preferred"
    by auto
  then have "truthy_str preferred \<Longrightarrow>
      find (\<lambda>tool. t_name tool = preferred \<and> tool_enabled tool) (cfg_tools config) = None"
    by (cases preferred) (auto simp: names_enabled_tool_def intro: find_none_if_not_ex)
  then have "get_selected_tool_config config state = (t_name tool, Some tool)"
    using assms(4) by (simp add: get_selected_tool_config_def Let_def flip: preferred_def)
  then show ?thesis
    by (simp add: selected_schema_def build_runtime_tool_config_def)
qed

theorem get_selected_tool_config_first_enabled_witness:
  "\<not> names_enabled_tool example_config (chosen_tool example_state) \<and>
   \<not> names_enabled_tool example_config (next_action example_state) \<and>
   \<not> names_enabled_tool example_config (cfg_tool_type example_config) \<and>
   find tool_enabled (cfg_tools example_config) = Some (example_tools ! 1) \<and>
   get_selected_tool_config example_config example_state =
     (Some ''sheets'', Some (example_tools ! 1)) \<and>
   map f_name (selected_schema example_config example_state) = [Some ''email''] \<and>
   map_of (build_runtime_tool_config example_config example_state) (Some ''required_fields'') =
     Some (PList [PDict [(''name'', PStr ''email''), (''required'', PBool True),
                         (''validate'', PStr ''email'')]])"
  using get_selected_tool_config_first_enabled
    [of example_config example_state "example_tools ! 1"]
  by (simp add: names_enabled_tool_def tool_enabled_def example_config_def example_state_def
      example_tools_def runtime_config_of_def legacy_field_def)

subsection \<open>The tool executor\<close>

text \<open>
  Claim C2, on the code. The registry has no entry \<open>generic\<close>, so the subscript of
  the default raises \<open>KeyError\<close> for every tool type, registered or not; the
  \<open>except\<close> clause turns it into the failure envelope whose error is the quoted key.
  The call returns, and what it returns is never the envelope of a registry entry.
\<close>

theorem execute_tool_generic_key_error:
  "execute_tool run tool_type data config verbose =
     [(''success'', PBool False),
      (''data'', PDict data),
      (''type'', PStr tool_type),
      (''message'', PStr (''Tool execution failed: '' @ CHR 0x27 # ''generic'' @ [CHR 0x27])),
      (''error'', PStr (CHR 0x27 # ''generic'' @ [CHR 0x27]))]"
  by (simp add: execute_tool_def subscript_def AVAILABLE_TOOLS_def)

subsection \<open>The exit-condition evaluator\<close>

text \<open>
  A descriptor without a type, or with a type that is none of the four, evaluates to
  false whatever the state and the messages are.
\<close>

lemma evaluate_missing_type:
  "map_of cond ''type'' = None \<Longrightarrow> evaluate re_search py_int cond state msgs = Inr False"
  by (simp add: evaluate_def)

lemma evaluate_unknown_type:
  "dget cond ''type'' \<notin> {PStr ''prompt'', PStr ''logical'', PStr ''tool_event'', PStr ''max_turns''}
   \<Longrightarrow> evaluate re_search py_int cond state msgs = Inr False"
  by (simp add: evaluate_def Let_def)

text \<open>
  Claim C7, on the code. A prompt condition whose expression is a list of phrases (the
  form the docstring of the exit evaluator announces) is truthy, so \<open>prompt_matches\<close>
  goes on to \<open>expr.startswith\<close>, which a list does not have: with one user message in
  the conversation, \<open>evaluate\<close> raises \<open>AttributeError\<close> instead of returning false.
\<close>

theorem evaluate_prompt_list_expression_raises:
  "evaluate re_search py_int
     [(''type'', PStr ''prompt''), (''expression'', PList [PStr ''bye'', PStr ''quit''])]
     state
     [PDict [(''role'', PStr ''user''), (''content'', PStr ''bye'')]]
   = Inl (AttributeError
       (CHR 0x27 # ''list'' @ [CHR 0x27] @ '' object has no attribute '' @
        CHR 0x27 # ''startswith'' @ [CHR 0x27]))"
  by (simp add: evaluate_def prompt_matches_def dget_def dget_default_def bind_err_def
      attr_error_def quote_def)

subsection \<open>The validator\<close>

lemma coerce_spec_coerced:
  "coerce B (get_type field) (field_value data field) = Inl e \<Longrightarrow>
     spec_coerced B data field = None \<and> (\<exists>t. field_type field = Some t \<and> get_type field = PStr t)"
  "coerce B (get_type field) (field_value data field) = Inr v \<Longrightarrow> spec_coerced B data field = Some v"
  by (auto simp: coerce_def spec_coerced_def field_type_def get_type_def Let_def bind_err_def
      split: sum.splits if_splits option.splits pyval.splits)

text \<open>One turn of the loop adds what the specification says the field contributes.\<close>

lemma validate_fields_step:
  "validate_fields B data (field # rest) validated errors =
     validate_fields B data rest
       (fold (\<lambda>(k, v). AList.update k v) (spec_entries B data field) validated)
       (errors @ spec_errors B data field)"
proof (cases "missing_or_blank (field_value data field)")
  case True
  then show ?thesis
    by (cases "f_required field")
      (auto simp: Let_def field_value_def spec_errors_def spec_entries_def field_required_def)
next
  case False
  then obtain k where k: "f_name field = Some k"
    by (cases "f_name field") (auto simp: field_value_def missing_or_blank_def)
  show ?thesis
  proof (cases "coerce B (get_type field) (field_value data field)")
    case (Inl e)
    from False Inl coerce_spec_coerced(1)[OF Inl] show ?thesis
      by (auto simp add: Let_def field_value_def spec_errors_def spec_entries_def k py_str_def)
  next
    case (Inr v)
    have "(get_opt (f_format field) = PStr ''email'') = field_is_email field"
      by (cases "f_format field") (auto simp: field_is_email_def)
    with False Inr coerce_spec_coerced(2)[OF Inr] show ?thesis
      by (simp add: Let_def field_value_def spec_errors_def spec_entries_def k)
  qed
qed

lemma validate_fields_spec:
  "validate_fields B data schema validated errors =
     (fold (\<lambda>(k, v). AList.update k v) (concat (map (spec_entries B data) schema)) validated,
      errors @ concat (map (spec_errors B data) schema))"
proof (induction schema arbitrary: validated errors)
  case Nil
  show ?case by simp
next
  case (Cons field rest)
  show ?case
    unfolding validate_fields_step Cons.IH by simp
qed


text \<open>The contract of one field, case by case.\<close>

lemma spec_required_missing:
  "missing_or_blank (field_value data field) \<Longrightarrow> field_required field \<Longrightarrow>
   spec_errors B data field = [fmt_name (f_name field) @ '' is required''] \<and>
   spec_entries B data field = []"
  by (simp add: spec_errors_def spec_entries_def)

lemma spec_optional_missing:
  "missing_or_blank (field_value data field) \<Longrightarrow> \<not> field_required field \<Longrightarrow>
   spec_errors B data field = [] \<and> spec_entries B data field = []"
  by (simp add: spec_errors_def spec_entries_def)

lemma spec_int_coercion_fails:
  "\<not> missing_or_blank (field_value data field) \<Longrightarrow> field_type field = Some ''int'' \<Longrightarrow>
   b_int B (field_value data field) = Inl e \<Longrightarrow>
   spec_errors B data field = [fmt_name (f_name field) @ '' failed to coerce to int''] \<and>
   spec_entries B data field = []"
  by (simp add: spec_errors_def spec_entries_def spec_coerced_def split: option.splits)

lemma spec_float_coercion_fails:
  "\<not> missing_or_blank (field_value data field) \<Longrightarrow> field_type field = Some ''float'' \<Longrightarrow>
   b_float B (field_value data field) = Inl e \<Longrightarrow>
   spec_errors B data field = [fmt_name (f_name field) @ '' failed to coerce to float''] \<and>
   spec_entries B data field = []"
  by (simp add: spec_errors_def spec_entries_def spec_coerced_def split: option.splits)

lemma spec_string_trimmed:
  "\<not> missing_or_blank (field_value data field) \<Longrightarrow> field_type field = Some ''string'' \<Longrightarrow>
   f_name field = Some k \<Longrightarrow> \<not> field_is_email field \<Longrightarrow>
   spec_errors B data field = [] \<and>
   spec_entries B data field = [(k, PStr (strip (py_str B (field_value data field))))]"
  by (simp add: spec_errors_def spec_entries_def spec_coerced_def)

lemma spec_email_mismatch:
  "\<not> missing_or_blank (field_value data field) \<Longrightarrow> spec_coerced B data field = Some v \<Longrightarrow>
   field_is_email field \<Longrightarrow> \<not> EMAIL_REGEX_match (py_str B v) \<Longrightarrow>
   spec_errors B data field = [fmt_name (f_name field) @ '' must be a valid email''] \<and>
   spec_entries B data field = []"
  by (simp add: spec_errors_def spec_entries_def split: option.splits)

subsection \<open>The decision router\<close>

text \<open>Logging a node changes the action history only.\<close>

lemma log_node_execution_fields:
  "next_action (log_node_execution B n old new) = next_action new"
  "decision_justification (log_node_execution B n old new) = decision_justification new"
  "chosen_tool (log_node_execution B n old new) = chosen_tool new"
  "tool_category (log_node_execution B n old new) = tool_category new"
  "conversation_active (log_node_execution B n old new) = conversation_active new"
  "extracted_data (log_node_execution B n old new) = extracted_data new"
  "messages (log_node_execution B n old new) = messages new"
  by (simp_all add: log_node_execution_def track_action_def Let_def)

text \<open>The token of a match has no whitespace, so stripping leaves it as it is.\<close>

lemma token_char_not_space: "token_char c \<Longrightarrow> \<not> is_space c"
  by (auto simp: token_char_def is_word_def is_space_def Let_def)

lemma strip_no_space_ends:
  assumes "s \<noteq> []" "\<not> is_space (hd s)" "\<not> is_space (last s)"
  shows "strip s = s"
proof -
  from assms have l: "lstrip s = s"
    by (cases s) (auto simp: lstrip_def)
  from assms have "dropWhile is_space (rev s) = rev s"
    by (cases "rev s") (auto simp: last_rev hd_rev)
  then show ?thesis by (simp add: strip_def l rstrip_def)
qed

lemma split_last_dash_subset:
  "split_last_dash run = Some (tok, remainder) \<Longrightarrow> set tok \<subseteq> set run"
proof -
  assume a: "split_last_dash run = Some (tok, remainder)"
  then have tok: "tok = rev (tl (dropWhile (\<lambda>c. c \<noteq> CHR ''-'') (rev run)))"
    by (auto simp: split_last_dash_def split: if_splits)
  have "set (tl (dropWhile (\<lambda>c. c \<noteq> CHR ''-'') (rev run))) \<subseteq> set (rev run)"
  proof
    fix x assume "x \<in> set (tl (dropWhile (\<lambda>c. c \<noteq> CHR ''-'') (rev run)))"
    then have "x \<in> set (dropWhile (\<lambda>c. c \<noteq> CHR ''-'') (rev run))"
      by (cases "dropWhile (\<lambda>c. c \<noteq> CHR ''-'') (rev run)") auto
    then show "x \<in> set (rev run)" by (rule set_dropWhileD)
  qed
  then show ?thesis by (simp add: tok)
qed

lemma decision_match_at_token:
  assumes "decision_match_at s = Some (tok, reason)"
  shows "tok \<noteq> [] \<and> list_all token_char tok"
proof -
  define rest where "rest = dropWhile is_space (drop 9 s)"
  define run where "run = takeWhile token_char rest"
  have run: "list_all token_char run"
    by (simp add: run_def list_all_iff) (meson set_takeWhileD)
  from assms have "(tok = run \<and> run \<noteq> []) \<or>
      (\<exists>remainder. split_last_dash run = Some (tok, remainder) \<and> tok \<noteq> [])"
    by (auto simp: decision_match_at_def Let_def rest_def run_def
        split: if_splits list.splits option.splits)
  then show ?thesis
    using run split_last_dash_subset by (fastforce simp: list_all_iff)
qed

lemma decision_search_token:
  "decision_search response = Some (tok, reason) \<Longrightarrow> tok \<noteq> [] \<and> list_all token_char tok"
  by (induction response) (auto split: option.splits dest: decision_match_at_token)

lemma decision_search_strip_token:
  assumes "decision_search text = Some (tok, reason)"
  shows "strip tok = tok"
proof -
  from decision_search_token[OF assms] have "tok \<noteq> []" "list_all token_char tok" by auto
  then have "\<not> is_space (hd tok)" "\<not> is_space (last tok)"
    by (auto simp: list_all_iff intro!: token_char_not_space)
  with \<open>tok \<noteq> []\<close> show ?thesis by (rule strip_no_space_ends)
qed

text \<open>Unfolding rules for evaluating the string functions on literals.\<close>

lemma eq_char_of_iff: "c = char_of n \<longleftrightarrow> take_bit 8 n = of_char c"
  using char_of_eq_iff[of n c] by auto

lemmas string_evals = lower_def lower_char_def is_space_def strip_def lstrip_def rstrip_def
  char_of_eq_iff eq_char_of_iff

lemmas regex_evals = parse_decision_def decision_match_at_def token_char_def is_word_def
  reason_group_def split_last_dash_def Let_def

lemmas example_defs = example_world_def example_config_def example_state_def example_tools_def
  example_builtins_def llm_returning_def result_field_def

lemma match_tool_name:
  "match_tool config decision = Some t \<Longrightarrow> \<exists>name. t_name t = Some name \<and> name \<noteq> []"
  by (auto simp: match_tool_def find_Some_iff split: option.splits)

lemma decision_router_node_fields:
  assumes "llm (w_decision_prompt W config state) = Inr response"
  shows "\<exists>s'. decision_router_node W state config llm = Inr s' \<and>
     decision_justification s' = snd (parse_decision response) \<and>
     next_action s' =
       Some (resolved_action config (action_history state) (fst (parse_decision response)))"
proof (cases "match_tool config (fst (parse_decision response))")
  case None
  with assms show ?thesis
    by (simp add: decision_router_node_def bind_err_def Let_def split_beta
        log_node_execution_fields resolved_action_def str_or_def repeated_tool_def)
next
  case (Some t)
  with match_tool_name obtain name where "t_name t = Some name" "name \<noteq> []" by blast
  with assms Some show ?thesis
    by (simp add: decision_router_node_def bind_err_def Let_def split_beta
        log_node_execution_fields resolved_action_def str_or_def)
qed

text \<open>
  Claim C8, as amended. When the completion returns a text, the decision router returns
  a state. If the regular expression matches, the justification is the reason with the
  whitespace at its ends stripped and the decision is the token; if nothing matches,
  the decision is \<open>chat\<close> and the justification is the whole text, stripped. The
  decision becomes \<open>next_action\<close> after tool resolution: as it is when it names no
  configured tool, else the configured name of the tool, or \<open>chat\<close> when the loop guard
  fires. Parsing never raises.
\<close>

theorem decision_router_node_parses_decision:
  assumes "llm (w_decision_prompt W config state) = Inr response"
  shows "result_field decision_justification (decision_router_node W state config llm) =
           Some (case decision_search response of
                   Some (token, reason) \<Rightarrow> strip reason
                 | None \<Rightarrow> strip response) \<and>
         result_field next_action (decision_router_node W state config llm) =
           Some (Some (resolved_action config (action_history state)
                   (case decision_search response of
                      Some (token, reason) \<Rightarrow> token
                    | None \<Rightarrow> ''chat'')))"
proof -
  have p: "parse_decision response =
      (case decision_search response of
         Some (token, reason) \<Rightarrow> (token, strip reason)
       | None \<Rightarrow> (''chat'', strip response))"
    by (auto simp: parse_decision_def decision_search_strip_token split: option.splits)
  from decision_router_node_fields[of llm W config state response] assms show ?thesis
    by (auto simp: result_field_def p split: option.splits)
qed

theorem decision_router_node_parses_decision_witness:
  "llm_returning ''I think DECISION: end - user said goodbye''
     (w_decision_prompt example_world example_config example_state)
     = Inr ''I think DECISION: end - user said goodbye'' \<and>
   result_field decision_justification
     (decision_router_node example_world example_state example_config
        (llm_returning ''I think DECISION: end - user said goodbye''))
     = Some ''user said goodbye'' \<and>
   result_field next_action
     (decision_router_node example_world example_state example_config
        (llm_returning ''I think DECISION: end - user said goodbye''))
     = Some (Some ''end'')"
  using decision_router_node_parses_decision
    [of "llm_returning ''I think DECISION: end - user said goodbye''"
        example_world example_config example_state
        "''I think DECISION: end - user said goodbye''"]
  by (simp add: llm_returning_def resolved_action_def match_tool_def example_config_def
      example_tools_def string_evals regex_evals)

text \<open>
  Claim C8 as stated fails on the justification: for the text \<open>" hello "\<close> nothing
  matches, and the justification is \<open>"hello"\<close>, not the raw text. It also fails on
  the decision: the token \<open>SHEETS\<close> is replaced by the configured name \<open>sheets\<close>.
\<close>

theorem decision_justification_stripped_counterexample:
  "decision_search '' hello '' = None \<and>
   result_field decision_justification
     (decision_router_node example_world example_state example_config
        (llm_returning '' hello ''))
     \<noteq> Some '' hello '' \<and>
   decision_search ''DECISION: SHEETS - save the row'' = Some (''SHEETS'', ''save the row'') \<and>
   result_field next_action
     (decision_router_node example_world example_state example_config
        (llm_returning ''DECISION: SHEETS - save the row''))
     = Some (Some ''sheets'')"
  by (simp add: decision_router_node_def bind_err_def log_node_execution_fields split_beta
      match_tool_def repeated_tool_def recent_actions_def str_or_def
      example_defs string_evals regex_evals)




subsection \<open>Merging extracted data\<close>

lemma dget_update:
  "dget (AList.update k' v d) k = (if k = k' then v else dget d k)"
  by (simp add: dget_def update_conv')

lemma truthy_dget_present: "truthy (dget d k) \<Longrightarrow> map_of d k \<noteq> None"
  by (cases "map_of d k") (auto simp: dget_def)

lemma merge_extracted_keeps:
  "truthy (dget merged k) \<Longrightarrow> dget (merge_extracted merged extracted) k = dget merged k"
proof (induction extracted arbitrary: merged)
  case Nil
  show ?case by simp
next
  case (Cons kv rest)
  obtain k' v where kv: "kv = (k', v)" by (cases kv)
  show ?case
  proof (cases "map_of merged k' = None \<or> \<not> truthy (dget merged k')")
    case True
    with Cons.prems truthy_dget_present[OF Cons.prems] have "k' \<noteq> k" by auto
    then have same: "dget (AList.update k' v merged) k = dget merged k"
      by (simp add: dget_update)
    with Cons.prems have "truthy (dget (AList.update k' v merged) k)" by simp
    from Cons.IH[OF this] same True show ?thesis by (simp add: kv)
  next
    case False
    then have "\<not> (map_of merged k' = None \<or> \<not> truthy (dget merged k'))" .
    with Cons.IH[OF Cons.prems] show ?thesis
      unfolding kv merge_extracted.simps by (simp only: if_False)
  qed
qed

lemma merge_extracted_other:
  "k \<notin> fst ` set extracted \<Longrightarrow> dget (merge_extracted merged extracted) k = dget merged k"
  by (induction extracted arbitrary: merged) (auto simp: dget_update)

lemma merge_extracted_fills:
  assumes "\<not> truthy (dget merged k)" "map_of extracted k = Some v" "distinct (map fst extracted)"
  shows "dget (merge_extracted merged extracted) k = v"
  using assms
proof (induction extracted arbitrary: merged)
  case Nil
  then show ?case by simp
next
  case (Cons kv rest)
  obtain k' v' where kv: "kv = (k', v')" by (cases kv)
  show ?case
  proof (cases "k' = k")
    case True
    with Cons.prems kv have v: "v' = v" and notin: "k \<notin> fst ` set rest" by auto
    from Cons.prems(1) have "map_of merged k = None \<or> \<not> truthy (dget merged k)" by simp
    with True kv v merge_extracted_other[OF notin] show ?thesis
      by (simp add: dget_update)
  next
    case False
    with Cons.prems kv have "map_of rest k = Some v" "distinct (map fst rest)" by auto
    moreover from False Cons.prems(1) have
      "\<not> truthy (dget (if map_of merged k' = None \<or> \<not> truthy (dget merged k')
          then AList.update k' v' merged else merged) k)"
      by (simp add: dget_update)
    ultimately show ?thesis
      using Cons.IH by (simp add: kv)
  qed
qed

lemma dget_fold_update:
  "dget (fold (\<lambda>(k, v). AList.update k v) es d) k =
     (case map_of (rev es) k of Some v \<Rightarrow> v | None \<Rightarrow> dget d k)"
  by (induction es arbitrary: d) (auto simp: dget_update dget_def update_conv' split: option.splits)

lemma distinct_fold_update:
  "distinct (map fst d) \<Longrightarrow> distinct (map fst (fold (\<lambda>(k, v). AList.update k v) es d))"
  by (induction es arbitrary: d) (auto simp: distinct_update)

lemma map_of_rev_distinct: "distinct (map fst xs) \<Longrightarrow> map_of (rev xs) = map_of xs"
  by (metis distinct_rev map_of_inject_set rev_map set_rev)

lemma validated_distinct:
  "distinct (map fst (fst (validate_against_schema B data schema)))"
  by (simp add: validate_against_schema_def validate_fields_spec distinct_fold_update)

lemma dget_dict_update_validated:
  "dget (dict_update d (fst (validate_against_schema B data schema))) k =
     (case map_of (fst (validate_against_schema B data schema)) k of
        Some v \<Rightarrow> v | None \<Rightarrow> dget d k)"
  by (simp add: dict_update_def dget_fold_update map_of_rev_distinct[OF validated_distinct])

text \<open>
  Claim C9. A key that holds a truthy value in \<open>extracted_data\<close> keeps that value through
  the structured extractor, whatever the completion returns. The validation node
  replaces it only by the validated value of that key, and only when validation
  reports no error. The merge of the extractor fills a key that is absent or falsy
  with the extracted value.
\<close>

theorem extracted_data_merge_invariant:
  assumes "truthy (dget (extracted_data state) k)"
  shows "(\<forall>s'. fst (structured_extractor_node W state config llm) = Inr s' \<longrightarrow>
            dget (extracted_data s') k = dget (extracted_data state) k) \<and>
         dget (extracted_data (validate_inputs_node W state config)) k =
           (let V = validate_against_schema (w_builtins W) (extracted_data state)
                      (selected_schema config state)
            in if snd V \<noteq> [] then dget (extracted_data state) k
               else (case map_of (fst V) k of
                       Some v \<Rightarrow> v
                     | None \<Rightarrow> dget (extracted_data state) k)) \<and>
         (\<forall>merged extracted k' v.
            \<not> truthy (dget merged k') \<longrightarrow> map_of extracted k' = Some v \<longrightarrow>
            distinct (map fst extracted) \<longrightarrow>
            dget (merge_extracted merged extracted) k' = v)"
proof (intro conjI allI impI)
  fix s'
  assume "fst (structured_extractor_node W state config llm) = Inr s'"
  then show "dget (extracted_data s') k = dget (extracted_data state) k"
    using merge_extracted_keeps[OF assms]
    by (auto simp: structured_extractor_node_def Let_def log_node_execution_fields bind_err_def
        split: if_splits list.splits)
next
  show "dget (extracted_data (validate_inputs_node W state config)) k =
           (let V = validate_against_schema (w_builtins W) (extracted_data state)
                      (selected_schema config state)
            in if snd V \<noteq> [] then dget (extracted_data state) k
               else (case map_of (fst V) k of
                       Some v \<Rightarrow> v
                     | None \<Rightarrow> dget (extracted_data state) k))"
    using dget_dict_update_validated[of "extracted_data state" "w_builtins W"
        "extracted_data state" "selected_schema config state" k]
    by (simp add: validate_inputs_node_def Let_def split_beta log_node_execution_fields)
next
  fix merged extracted :: dict and k' :: string and v :: pyval
  assume "\<not> truthy (dget merged k')" "map_of extracted k' = Some v"
    "distinct (map fst extracted)"
  then show "dget (merge_extracted merged extracted) k' = v"
    by (rule merge_extracted_fills)
qed


theorem extracted_data_merge_invariant_witness:
  "truthy (dget (extracted_data (example_state\<lparr>extracted_data := [(''name'', PStr ''Alice'')]\<rparr>))
     ''name'') \<and>
   result_field (\<lambda>s. dget (extracted_data s) ''name'')
     (fst (structured_extractor_node (example_world\<lparr>w_json_loads := example_json_loads\<rparr>)
        (example_state\<lparr>extracted_data := [(''name'', PStr ''Alice'')]\<rparr>)
        example_config (llm_returning ''ok'')))
     = Some (PStr ''Alice'') \<and>
   result_field (\<lambda>s. dget (extracted_data s) ''email'')
     (fst (structured_extractor_node (example_world\<lparr>w_json_loads := example_json_loads\<rparr>)
        (example_state\<lparr>extracted_data := [(''name'', PStr ''Alice'')]\<rparr>)
        example_config (llm_returning ''ok'')))
     = Some (PStr ''bob@example.org'') \<and>
   truthy (dget (extracted_data (example_state\<lparr>extracted_data :=
       [(''name'', PStr ''Alice''), (''email'', PStr '' bob@example.org '')]\<rparr>)) ''email'') \<and>
   dget (extracted_data (validate_inputs_node example_world
       (example_state\<lparr>extracted_data :=
          [(''name'', PStr ''Alice''), (''email'', PStr '' bob@example.org '')]\<rparr>)
       example_config)) ''email''
     = PStr ''bob@example.org''"
  using extracted_data_merge_invariant
    [where state = "example_state\<lparr>extracted_data := [(''name'', PStr ''Alice'')]\<rparr>"
       and k = "''name''" and W = "example_world\<lparr>w_json_loads := example_json_loads\<rparr>"
       and config = example_config and llm = "llm_returning ''ok''"]
    extracted_data_merge_invariant
    [where state = "example_state\<lparr>extracted_data :=
          [(''name'', PStr ''Alice''), (''email'', PStr '' bob@example.org '')]\<rparr>"
       and k = "''email''" and W = example_world and config = example_config
       and llm = "llm_returning ''ok''"]
  by (simp add: structured_extractor_node_def validate_inputs_node_def selected_schema_def
      selected_tool_type_def get_selected_tool_config_def get_tool_category_def
      tool_enabled_def str_or_def extract_json_def strip_values_def example_json_loads_def
      bind_err_def dget_def missing_or_blank_def log_node_execution_fields
      validate_against_schema_def coerce_def get_type_def py_str_def dict_update_def
      EMAIL_REGEX_match_def email_core_def email_char_def split_beta
      example_defs string_evals Let_def)

subsection \<open>The terminal state\<close>




subsection \<open>Degrading on a completion that does not parse\<close>




subsection \<open>The result envelope of the HTTP retrieval tool\<close>

text \<open>
  Whatever the settings and the exchange are, the envelope of a completed exchange (the
  one that carries a status code) has no key \<open>error\<close>, also when the status is not a
  success.
\<close>

lemma api_retrieval_tool_completed_exchange_no_error:
  assumes "tw_requests_available world" and "truthy_str (api_base_url api_cfg)"
    and "map_of (api_retrieval_tool B world data api_cfg) ''status_code'' \<noteq> None"
  shows "map_of (api_retrieval_tool B world data api_cfg) ''error'' = None"
  using assms
  by (simp add: api_retrieval_tool_def Let_def split: sum.splits split del: if_split)

text \<open>
  Claim C3, on the code. The server answers 404: the exchange completes, so the tool
  reports \<open>success = False\<close> from the status code, in an envelope with a message and a
  summary but without the key \<open>error\<close>.
\<close>

theorem api_retrieval_tool_http_failure_without_error:
  "map_of (api_retrieval_tool example_builtins example_tool_world
             [(''query'', PStr ''blue widgets'')] example_api_settings) ''success''
     = Some (PBool False) \<and>
   map_of (api_retrieval_tool example_builtins example_tool_world
             [(''query'', PStr ''blue widgets'')] example_api_settings) ''error''
     = None \<and>
   \<not> error_populated (api_retrieval_tool example_builtins example_tool_world
             [(''query'', PStr ''blue widgets'')] example_api_settings)"
  by (simp add: api_retrieval_tool_def error_populated_def example_tool_world_def
      example_api_settings_def Let_def py_or_def dget_def)

subsection \<open>The two regular expressions, read declaratively\<close>

text \<open>
  The email pattern matches exactly the strings \<open>a@b.c\<close> whose three parts are not
  empty and hold neither \<open>@\<close> nor whitespace.
\<close>

lemma email_char_dot: "email_char CHR ''.''" and email_char_at: "\<not> email_char CHR ''@''"
  by (simp_all add: email_char_def is_space_def)

lemma email_core_iff:
  "email_core s \<longleftrightarrow>
     (\<exists>a b c. s = a @ ''@'' @ b @ ''.'' @ c \<and> a \<noteq> [] \<and> b \<noteq> [] \<and> c \<noteq> [] \<and>
        list_all email_char a \<and> list_all email_char b \<and> list_all email_char c)"
proof
  assume core: "email_core s"
  define a where "a = takeWhile email_char s"
  from core obtain t where d: "dropWhile email_char s = CHR ''@'' # t"
    and t: "list_all email_char t" and dot: "CHR ''.'' \<in> set (butlast (tl t))"
    by (auto simp: email_core_def split: list.splits)
  from core have a: "a \<noteq> []" by (simp add: email_core_def a_def)
  have s: "s = a @ CHR ''@'' # t"
    using takeWhile_dropWhile_id[of email_char s] by (simp add: a_def d)
  from dot obtain x u where tx: "t = x # u"
    by (cases t) auto
  with dot have u: "u \<noteq> []" by auto
  from dot tx obtain p q where pq: "butlast u = p @ CHR ''.'' # q"
    by (auto dest: split_list)
  from u have "u = butlast u @ [last u]" by simp
  with pq tx have t': "t = (x # p) @ ''.'' @ (q @ [last u])" by simp
  have "list_all email_char a"
    by (simp add: a_def list_all_iff) (meson set_takeWhileD)
  moreover from t t' have "list_all email_char (x # p)" "list_all email_char (q @ [last u])"
    by (metis list_all_append)+
  ultimately show "\<exists>a b c. s = a @ ''@'' @ b @ ''.'' @ c \<and> a \<noteq> [] \<and> b \<noteq> [] \<and> c \<noteq> [] \<and>
        list_all email_char a \<and> list_all email_char b \<and> list_all email_char c"
    using a s t' by (intro exI[of _ a] exI[of _ "x # p"] exI[of _ "q @ [last u]"]) simp
next
  assume "\<exists>a b c. s = a @ ''@'' @ b @ ''.'' @ c \<and> a \<noteq> [] \<and> b \<noteq> [] \<and> c \<noteq> [] \<and>
        list_all email_char a \<and> list_all email_char b \<and> list_all email_char c"
  then obtain a b c where s: "s = a @ ''@'' @ b @ ''.'' @ c" and ne: "a \<noteq> []" "b \<noteq> []" "c \<noteq> []"
    and all: "list_all email_char a" "list_all email_char b" "list_all email_char c"
    by blast
  from all(1) have tw: "takeWhile email_char s = a" "dropWhile email_char s = ''@'' @ b @ ''.'' @ c"
    by (simp_all add: s list_all_iff email_char_at takeWhile_append2 dropWhile_append2)
  from ne obtain x p where b: "b = x # p" by (cases b) auto
  from ne(3) have "butlast (p @ CHR ''.'' # c) = p @ CHR ''.'' # butlast c"
    by (simp add: butlast_append)
  then have "CHR ''.'' \<in> set (butlast (tl (b @ ''.'' @ c)))" by (simp add: b)
  with tw ne all show "email_core s"
    by (simp add: email_core_def email_char_dot)
qed

text \<open>Two scenarios of the specification: a missing required email, and a name that is trimmed.\<close>

lemma validate_scenario_missing_email:
  "validate_against_schema example_builtins []
     [\<lparr>f_name = Some ''email'', f_required = Some (PBool True), f_type = None,
       f_format = Some (PStr ''email''), f_description = None\<rparr>]
   = ([], [''email is required''])"
  by (simp add: validate_against_schema_def dget_def missing_or_blank_def)

lemma validate_scenario_name:
  "validate_against_schema example_builtins [(''name'', PStr '' Alice '')]
     [\<lparr>f_name = Some ''name'', f_required = Some (PBool True), f_type = None,
       f_format = None, f_description = None\<rparr>]
   = ([(''name'', PStr ''Alice'')], [])"
  by (simp add: validate_against_schema_def dget_def missing_or_blank_def coerce_def
      get_type_def py_str_def string_evals)

text \<open>
  The decision pattern: after a prefix in which no match can start, the literal in any
  letter case, optional whitespace, a token, whitespace, a hyphen and the rest give
  the token and the first line of the rest.
\<close>

lemma decision_match_at_not_d:
  "lower_char c \<noteq> CHR ''d'' \<Longrightarrow> decision_match_at (c # cs) = None"
  by (auto simp: decision_match_at_def lower_def)

lemma dropWhile_all: "list_all P xs \<Longrightarrow> dropWhile P (xs @ ys) = dropWhile P ys"
  by (induction xs) auto

lemma takeWhile_all: "list_all P xs \<Longrightarrow> takeWhile P (xs @ ys) = xs @ takeWhile P ys"
  by (induction xs) auto

lemma decision_match_at_canonical:
  assumes "length d = 9" "lower d = ''decision:''"
    and "list_all is_space ws1" "list_all is_space ws2" "ws2 \<noteq> []"
    and "tok \<noteq> []" "list_all token_char tok"
  shows "decision_match_at (d @ ws1 @ tok @ ws2 @ CHR ''-'' # rest)
           = Some (tok, reason_group rest)"
proof -
  define tail where "tail = ws2 @ CHR ''-'' # rest"
  from assms(6,7) obtain t ts where tok: "tok = t # ts" and t: "\<not> is_space t"
    by (cases tok) (auto dest: token_char_not_space)
  from assms(4,5) obtain w ws where ws2: "ws2 = w # ws" and w: "\<not> token_char w"
    by (cases ws2) (auto dest: token_char_not_space)
  have dash: "\<not> is_space CHR ''-''"
    by (simp add: is_space_def)
  have rest1: "dropWhile is_space (ws1 @ tok @ tail) = tok @ tail"
    using assms(3) t by (simp add: dropWhile_all tok)
  have run: "takeWhile token_char (tok @ tail) = tok"
    using assms(7) w by (simp add: takeWhile_all ws2 tail_def)
  have after: "dropWhile token_char (tok @ tail) = tail"
    using assms(7) w by (simp add: dropWhile_all ws2 tail_def)
  have hyphen: "dropWhile is_space tail = CHR ''-'' # rest"
    using assms(4) dash by (simp add: dropWhile_all tail_def)
  have "decision_match_at (d @ ws1 @ tok @ tail) = Some (tok, reason_group rest)"
    unfolding decision_match_at_def
    using assms(1,2,6) by (simp add: Let_def rest1 run after hyphen)
  then show ?thesis by (simp add: tail_def)
qed

lemma decision_search_canonical:
  assumes "list_all (\<lambda>c. lower_char c \<noteq> CHR ''d'') pre"
    and "length d = 9" "lower d = ''decision:''"
    and "list_all is_space ws1" "list_all is_space ws2" "ws2 \<noteq> []"
    and "tok \<noteq> []" "list_all token_char tok"
  shows "decision_search (pre @ d @ ws1 @ tok @ ws2 @ CHR ''-'' # rest)
           = Some (tok, reason_group rest)"
  using assms(1)
proof (induction pre)
  case Nil
  from assms(2) obtain c cs where d: "d = c # cs" by (cases d) auto
  have "decision_search (d @ ws1 @ tok @ ws2 @ CHR ''-'' # rest) =
      (case decision_match_at (d @ ws1 @ tok @ ws2 @ CHR ''-'' # rest) of
         Some groups \<Rightarrow> Some groups
       | None \<Rightarrow> decision_search (cs @ ws1 @ tok @ ws2 @ CHR ''-'' # rest))"
    by (simp add: d)
  then show ?case
    using decision_match_at_canonical[OF assms(2-8)] by simp
next
  case (Cons c pre)
  then show ?case
    by (simp add: decision_match_at_not_d)
qed

subsection \<open>What the decision router records about itself\<close>

text \<open>
  The outcome that \<open>track_action\<close> records for the decision router is the fixed text
  of the last branch of \<open>summarize_outcome\<close>; it names neither the decision nor the
  tool. The loop guard therefore reads tool names only from outcomes that something
  else wrote into the history.
\<close>

lemma track_action_last:
  "action_history (track_action B node_name old_state new_state) \<noteq> [] \<and>
   ar_node (last (action_history (track_action B node_name old_state new_state))) = node_name \<and>
   ar_outcome (last (action_history (track_action B node_name old_state new_state))) =
     summarize_outcome B old_state new_state node_name"
  by (simp add: track_action_def Let_def)

lemma decision_router_outcome_text:
  assumes "decision_router_node W state config llm = Inr s'"
  shows "ar_node (last (action_history s')) = ''DECISION_ROUTER'' \<and>
         ar_outcome (last (action_history s')) = ''Node DECISION_ROUTER completed''"
proof -
  from assms obtain new_state where
    "s' = track_action (w_builtins W) ''DECISION_ROUTER'' state new_state"
    by (auto simp: decision_router_node_def bind_err_def Let_def split_beta
        log_node_execution_def split: sum.splits)
  then show ?thesis
    using track_action_last[of "w_builtins W" "''DECISION_ROUTER''" state new_state]
    by (simp add: summarize_outcome_def)
qed

end
